theory Spec2Isabelle
  imports Complex_Main "HOL-Library.Monad_Syntax" "HOL-Library.Multiset"
begin

section \<open>Values of the Python program\<close>

text \<open>
  The bank management system is a Python program: three model classes (User, Account,
  Transaction), the engine \<open>BankSystem\<close>, the identity store \<open>AuthManager\<close> and the
  JSON persistence \<open>DataManager\<close>.

  Conventions of the embedding.
  \<^item> A Python \<open>float\<close> is a binary64 value: a finite number, an infinity or NaN. Sums and
    differences are rounded to the nearest double, ties to even, and overflow to an
    infinity; comparisons with NaN are false. The sign of zero is not modelled.
  \<^item> A \<open>datetime\<close> is naive or aware. A naive one is its count of microseconds since
    0001-01-01T00:00:00; \<open>datetime.max\<close> is the count \<open>datetime_max\<close>.
  \<^item> A Python \<open>dict\<close> is an association list in insertion order; its keys are distinct, which
    the theorems that need it assume as \<open>distinct (map fst d)\<close>.
  \<^item> An object held in a dict is named by its key: a method that mutates the object
    rewrites the entry at that key.
  \<^item> What the program draws from its environment (\<open>uuid.uuid4()\<close>, \<open>datetime.now()\<close>,
    \<open>random.randint\<close>) is an argument of the model, a \<open>draw\<close>.
  \<^item> Library functions on strings that the program only calls (\<open>datetime.isoformat\<close>,
    \<open>datetime.fromisoformat\<close>, \<open>float\<close> of a string, SHA-256) are arguments as well,
    collected in a record \<open>pylib\<close>.
\<close>

subsection \<open>Floats\<close>

datatype pyfloat = Finite real | PosInf | NegInf | NaN

text \<open>
  Rounding a real number to the nearest double. The magnitude is scaled by powers of two
  until its integer part has 53 bits (fewer below the smallest normal number, where the
  exponent stops at -1074), rounded to an integer with ties to even, and scaled back.
\<close>

definition round_half_even :: "real \<Rightarrow> int" where
  "round_half_even q =
     (if q - of_int \<lfloor>q\<rfloor> < 1 / 2 then \<lfloor>q\<rfloor>
      else if 1 / 2 < q - of_int \<lfloor>q\<rfloor> then \<lfloor>q\<rfloor> + 1
      else if even \<lfloor>q\<rfloor> then \<lfloor>q\<rfloor> else \<lfloor>q\<rfloor> + 1)"

function scale_down :: "real \<Rightarrow> int \<Rightarrow> real \<times> int" where
  "scale_down x e = (if 2 ^ 53 \<le> x then scale_down (x / 2) (e + 1) else (x, e))"
  by pat_completeness auto
termination
proof (relation "measure (\<lambda>(x, e). nat \<lceil>x\<rceil>)")
  show "wf (measure (\<lambda>(x, e). nat \<lceil>x\<rceil>))" by simp
next
  fix x :: real and e :: int
  assume h: "2 ^ 53 \<le> x"
  then have "x / 2 + 1 \<le> x" by simp
  moreover have "of_int \<lceil>x / 2\<rceil> < x / 2 + 1" by linarith
  ultimately have "of_int \<lceil>x / 2\<rceil> < x" by linarith
  then have "\<lceil>x / 2\<rceil> < \<lceil>x\<rceil>" by linarith
  moreover have "0 < \<lceil>x\<rceil>" using h by (simp add: ceiling_less_iff)
  ultimately show "((x / 2, e + 1), (x, e)) \<in> measure (\<lambda>(x, e). nat \<lceil>x\<rceil>)"
    by simp
qed

function scale_up :: "real \<Rightarrow> int \<Rightarrow> real \<times> int" where
  "scale_up x e = (if x < 2 ^ 52 \<and> - 1074 < e then scale_up (2 * x) (e - 1) else (x, e))"
  by pat_completeness auto
termination
  by (relation "measure (\<lambda>(x, e). nat (e + 1074))") auto

declare scale_down.simps [simp del] scale_up.simps [simp del]

definition pow2 :: "int \<Rightarrow> real" where
  "pow2 e = (if 0 \<le> e then 2 ^ nat e else 1 / 2 ^ nat (- e))"

definition normalise :: "real \<Rightarrow> real \<times> int" where
  "normalise a = scale_up (fst (scale_down a 0)) (snd (scale_down a 0))"

definition magnitude :: "real \<Rightarrow> real" where
  "magnitude a = of_int (round_half_even (fst (normalise a))) * pow2 (snd (normalise a))"

definition round_double :: "real \<Rightarrow> pyfloat" where
  "round_double x =
     (if x = 0 then Finite 0
      else if 2 ^ 1024 \<le> magnitude \<bar>x\<bar> then (if x < 0 then NegInf else PosInf)
      else Finite (if x < 0 then - magnitude \<bar>x\<bar> else magnitude \<bar>x\<bar>))"

fun float_add :: "pyfloat \<Rightarrow> pyfloat \<Rightarrow> pyfloat" where
  "float_add (Finite x) (Finite y) = round_double (x + y)"
| "float_add NaN _ = NaN"
| "float_add _ NaN = NaN"
| "float_add PosInf NegInf = NaN"
| "float_add NegInf PosInf = NaN"
| "float_add PosInf _ = PosInf"
| "float_add _ PosInf = PosInf"
| "float_add NegInf _ = NegInf"
| "float_add _ NegInf = NegInf"

fun float_neg :: "pyfloat \<Rightarrow> pyfloat" where
  "float_neg (Finite x) = Finite (- x)"
| "float_neg PosInf = NegInf"
| "float_neg NegInf = PosInf"
| "float_neg NaN = NaN"

definition float_sub :: "pyfloat \<Rightarrow> pyfloat \<Rightarrow> pyfloat" where
  "float_sub x y = float_add x (float_neg y)"

fun float_le :: "pyfloat \<Rightarrow> pyfloat \<Rightarrow> bool" where
  "float_le (Finite x) (Finite y) = (x \<le> y)"
| "float_le NaN _ = False"
| "float_le _ NaN = False"
| "float_le NegInf _ = True"
| "float_le _ PosInf = True"
| "float_le _ _ = False"

fun float_lt :: "pyfloat \<Rightarrow> pyfloat \<Rightarrow> bool" where
  "float_lt (Finite x) (Finite y) = (x < y)"
| "float_lt NaN _ = False"
| "float_lt _ NaN = False"
| "float_lt PosInf _ = False"
| "float_lt _ NegInf = False"
| "float_lt _ _ = True"

text \<open>The operators \<open>+\<close>, \<open>-\<close>, \<open>\<le>\<close>, \<open><\<close> and the constant \<open>0\<close> of Python floats.\<close>

instantiation pyfloat :: "{zero, plus, minus, ord}"
begin

definition zero_pyfloat :: pyfloat where
  "zero_pyfloat = Finite 0"

definition plus_pyfloat :: "pyfloat \<Rightarrow> pyfloat \<Rightarrow> pyfloat" where
  "plus_pyfloat x y = float_add x y"

definition minus_pyfloat :: "pyfloat \<Rightarrow> pyfloat \<Rightarrow> pyfloat" where
  "minus_pyfloat x y = float_sub x y"

definition less_eq_pyfloat :: "pyfloat \<Rightarrow> pyfloat \<Rightarrow> bool" where
  "less_eq_pyfloat x y = float_le x y"

definition less_pyfloat :: "pyfloat \<Rightarrow> pyfloat \<Rightarrow> bool" where
  "less_pyfloat x y = float_lt x y"

instance ..

end

subsection \<open>Datetimes\<close>

text \<open>
  A naive datetime is its count of microseconds; an aware one carries that count and its
  offset from UTC. Comparing a naive with an aware datetime raises TypeError.
\<close>

datatype datetime = Naive int | Aware int int


subsection \<open>JSON values, files, the library and the environment\<close>

type_synonym 'v dict = "(string \<times> 'v) list"

datatype py_error =
    JSONDecodeError | KeyError | ValueError | TypeError | AttributeError | OverflowError

datatype json =
    JNull
  | JBool bool
  | JInt int
  | JFloat pyfloat
  | JStr string
  | JArr "json list"
  | JObj "(string \<times> json) list"

text \<open>A data file is absent, holds text that \<open>json.load\<close> rejects, or holds a JSON value.\<close>

datatype data_file = Missing | Undecodable | Decoded json

record pylib =
  isoformat :: "datetime \<Rightarrow> string"
  fromisoformat :: "string \<Rightarrow> py_error + datetime"
  float_of_str :: "string \<Rightarrow> py_error + pyfloat"
  sha256_hexdigest :: "string \<Rightarrow> string"

record draw =
  uuid4 :: string
  now :: int
  randint :: nat

subsection \<open>Dictionaries\<close>

text \<open>\<open>d.get(k)\<close>, \<open>d[k] = v\<close> (in place when the key is there, appended otherwise) and the
  mutation of the object stored at \<open>k\<close>.\<close>

definition dict_get :: "'v dict \<Rightarrow> string \<Rightarrow> 'v option" where
  "dict_get d k = map_of d k"

primrec dict_set :: "'v dict \<Rightarrow> string \<Rightarrow> 'v \<Rightarrow> 'v dict" where
  "dict_set [] k v = [(k, v)]"
| "dict_set (p # ps) k v = (if fst p = k then (k, v) # ps else p # dict_set ps k v)"

primrec dict_modify :: "'v dict \<Rightarrow> string \<Rightarrow> ('v \<Rightarrow> 'v) \<Rightarrow> 'v dict" where
  "dict_modify [] k f = []"
| "dict_modify (p # ps) k f =
     (if fst p = k then (k, f (snd p)) # ps else p # dict_modify ps k f)"

definition dict_values :: "'v dict \<Rightarrow> 'v list" where
  "dict_values d = map snd d"

subsection \<open>Decimal strings\<close>

definition digit :: "nat \<Rightarrow> char" where
  "digit n = ''0123456789'' ! (n mod 10)"

function str_nat :: "nat \<Rightarrow> string" where
  "str_nat n = (if n < 10 then [digit n] else str_nat (n div 10) @ [digit n])"
  by pat_completeness auto
termination
  by (relation "measure id") auto

declare str_nat.simps [simp del]

subsection \<open>Reading a decoded JSON value\<close>

text \<open>
  \<open>from_dict\<close> receives whatever \<open>json.load\<close> produced. \<open>data[k]\<close> raises KeyError on a dict
  without the key and TypeError on a value that is no dict; \<open>data.get(k, default)\<close> raises
  AttributeError on a value that is no dict.
\<close>

definition subscript :: "json \<Rightarrow> string \<Rightarrow> py_error + json" where
  "subscript d k =
     (case d of
        JObj kvs \<Rightarrow> (case map_of kvs k of Some v \<Rightarrow> Inr v | None \<Rightarrow> Inl KeyError)
      | _ \<Rightarrow> Inl TypeError)"

definition json_get :: "json \<Rightarrow> string \<Rightarrow> json \<Rightarrow> py_error + json" where
  "json_get d k dflt =
     (case d of
        JObj kvs \<Rightarrow> Inr (case map_of kvs k of Some v \<Rightarrow> v | None \<Rightarrow> dflt)
      | _ \<Rightarrow> Inl AttributeError)"

definition truthy :: "json \<Rightarrow> bool" where
  "truthy v =
     (case v of JNull \<Rightarrow> False | JBool b \<Rightarrow> b | JInt n \<Rightarrow> n \<noteq> 0
      | JFloat f \<Rightarrow> f \<noteq> Finite 0 | JStr s \<Rightarrow> s \<noteq> []
      | JArr xs \<Rightarrow> xs \<noteq> [] | JObj kvs \<Rightarrow> kvs \<noteq> [])"

text \<open>\<open>datetime.fromisoformat(data[k]) if data.get(k) else None\<close>\<close>

definition read_datetime :: "pylib \<Rightarrow> json \<Rightarrow> string \<Rightarrow> py_error + datetime option" where
  "read_datetime lib d k =
     (case json_get d k JNull of
        Inl e \<Rightarrow> Inl e
      | Inr v \<Rightarrow>
          if truthy v then
            (case subscript d k of
               Inl e \<Rightarrow> Inl e
             | Inr w \<Rightarrow>
                 (case w of
                    JStr s \<Rightarrow> (case fromisoformat lib s of Inl e \<Rightarrow> Inl e | Inr t \<Rightarrow> Inr (Some t))
                  | _ \<Rightarrow> Inl TypeError))
          else Inr None)"

text \<open>
  \<open>float(v)\<close>: a float is returned as it is, an \<open>int\<close> is rounded to the nearest double and
  raises OverflowError beyond the range of doubles.
\<close>

definition py_float :: "pylib \<Rightarrow> json \<Rightarrow> py_error + pyfloat" where
  "py_float lib v =
     (case v of
        JFloat f \<Rightarrow> Inr f
      | JInt n \<Rightarrow>
          (case round_double (of_int n) of Finite r \<Rightarrow> Inr (Finite r) | _ \<Rightarrow> Inl OverflowError)
      | JBool b \<Rightarrow> Inr (Finite (if b then 1 else 0))
      | JStr s \<Rightarrow> float_of_str lib s
      | _ \<Rightarrow> Inl TypeError)"

text \<open>
  The model classes have typed fields, Python objects do not: \<open>from_dict\<close> stores most
  values unchecked. A call of \<open>from_dict\<close> therefore has three outcomes: it raises, it
  returns an object whose fields have the types of the record, or it returns an object
  that the record cannot hold (\<open>Untypable\<close>; in Python no exception, and the loop goes on).
  Each \<open>from_dict\<close> is given in two parts: the first exception in the order of evaluation,
  and the typed object.
\<close>

datatype 'a outcome = Raised py_error | Returned 'a | Untypable

definition err :: "py_error + 'a \<Rightarrow> py_error option" where
  "err r = (case r of Inl e \<Rightarrow> Some e | Inr _ \<Rightarrow> None)"

definition val :: "py_error + 'a \<Rightarrow> 'a option" where
  "val r = (case r of Inl _ \<Rightarrow> None | Inr v \<Rightarrow> Some v)"

primrec first_error :: "py_error option list \<Rightarrow> py_error option" where
  "first_error [] = None"
| "first_error (c # cs) = (case c of Some e \<Rightarrow> Some e | None \<Rightarrow> first_error cs)"

definition then_float :: "pylib \<Rightarrow> py_error + json \<Rightarrow> py_error + pyfloat" where
  "then_float lib r = (case r of Inl e \<Rightarrow> Inl e | Inr v \<Rightarrow> py_float lib v)"

definition as_str :: "json \<Rightarrow> string option" where
  "as_str v = (case v of JStr s \<Rightarrow> Some s | _ \<Rightarrow> None)"

definition as_bool :: "json \<Rightarrow> bool option" where
  "as_bool v = (case v of JBool b \<Rightarrow> Some b | _ \<Rightarrow> None)"

definition as_num :: "json \<Rightarrow> pyfloat option" where
  "as_num v = (case v of JFloat f \<Rightarrow> Some f | _ \<Rightarrow> None)"

definition as_opt_str :: "json \<Rightarrow> string option option" where
  "as_opt_str v = (case v of JNull \<Rightarrow> Some None | JStr s \<Rightarrow> Some (Some s) | _ \<Rightarrow> None)"

definition outcome_of :: "py_error option \<Rightarrow> 'a option \<Rightarrow> 'a outcome" where
  "outcome_of e v =
     (case e of Some x \<Rightarrow> Raised x | None \<Rightarrow> (case v of Some a \<Rightarrow> Returned a | None \<Rightarrow> Untypable))"

section \<open>models/transaction.py\<close>

datatype TransactionType = DEPOSIT | WITHDRAWAL | TRANSFER | FEE

datatype TransactionStatus = PENDING | COMPLETED | FAILED | CANCELLED

record transaction =
  transaction_id :: string
  tx_account_id :: string
  transaction_type :: TransactionType
  amount :: pyfloat
  description :: string
  target_account_id :: "string option"
  tx_created_at :: datetime
  status :: TransactionStatus
  reference_number :: string
  fee :: pyfloat

definition generate_reference_number :: "nat \<Rightarrow> string" where
  "generate_reference_number r = ''TXN'' @ str_nat r"

text \<open>\<open>Transaction.__init__\<close> with \<open>created_at\<close> as passed (\<open>None\<close> takes the clock).\<close>

definition Transaction_init ::
  "draw \<Rightarrow> string \<Rightarrow> string \<Rightarrow> TransactionType \<Rightarrow> pyfloat \<Rightarrow> string \<Rightarrow> string option
     \<Rightarrow> datetime option \<Rightarrow> transaction" where
  "Transaction_init dr tid aid ty amt descr target created =
     \<lparr> transaction_id = tid,
       tx_account_id = aid,
       transaction_type = ty,
       amount = amt,
       description = descr,
       target_account_id = target,
       tx_created_at = (case created of Some t \<Rightarrow> t | None \<Rightarrow> Naive (now dr)),
       status = PENDING,
       reference_number = generate_reference_number (randint dr),
       fee = 0 \<rparr>"

definition create_transaction ::
  "draw \<Rightarrow> string \<Rightarrow> TransactionType \<Rightarrow> pyfloat \<Rightarrow> string \<Rightarrow> string option \<Rightarrow> transaction" where
  "create_transaction dr aid ty amt descr target =
     Transaction_init dr (uuid4 dr) aid ty amt descr target None"

definition complete_transaction :: "transaction \<Rightarrow> transaction" where
  "complete_transaction t = t\<lparr>status := COMPLETED\<rparr>"

definition fail_transaction :: "transaction \<Rightarrow> transaction" where
  "fail_transaction t = t\<lparr>status := FAILED\<rparr>"

definition TransactionType_value :: "TransactionType \<Rightarrow> string" where
  "TransactionType_value ty =
     (case ty of DEPOSIT \<Rightarrow> ''deposit'' | WITHDRAWAL \<Rightarrow> ''withdrawal''
      | TRANSFER \<Rightarrow> ''transfer'' | FEE \<Rightarrow> ''fee'')"

definition TransactionStatus_value :: "TransactionStatus \<Rightarrow> string" where
  "TransactionStatus_value st =
     (case st of PENDING \<Rightarrow> ''pending'' | COMPLETED \<Rightarrow> ''completed''
      | FAILED \<Rightarrow> ''failed'' | CANCELLED \<Rightarrow> ''cancelled'')"

definition TransactionType_of_value :: "json \<Rightarrow> py_error + TransactionType" where
  "TransactionType_of_value v =
     (if v = JStr ''deposit'' then Inr DEPOSIT
      else if v = JStr ''withdrawal'' then Inr WITHDRAWAL
      else if v = JStr ''transfer'' then Inr TRANSFER
      else if v = JStr ''fee'' then Inr FEE
      else Inl ValueError)"

definition TransactionStatus_of_value :: "json \<Rightarrow> py_error + TransactionStatus" where
  "TransactionStatus_of_value v =
     (if v = JStr ''pending'' then Inr PENDING
      else if v = JStr ''completed'' then Inr COMPLETED
      else if v = JStr ''failed'' then Inr FAILED
      else if v = JStr ''cancelled'' then Inr CANCELLED
      else Inl ValueError)"

definition then_type :: "py_error + json \<Rightarrow> py_error + TransactionType" where
  "then_type r = (case r of Inl e \<Rightarrow> Inl e | Inr v \<Rightarrow> TransactionType_of_value v)"

definition then_status :: "py_error + json \<Rightarrow> py_error + TransactionStatus" where
  "then_status r = (case r of Inl e \<Rightarrow> Inl e | Inr v \<Rightarrow> TransactionStatus_of_value v)"

definition Transaction_to_dict :: "pylib \<Rightarrow> transaction \<Rightarrow> json" where
  "Transaction_to_dict lib t = JObj
     [(''transaction_id'', JStr (transaction_id t)),
      (''account_id'', JStr (tx_account_id t)),
      (''transaction_type'', JStr (TransactionType_value (transaction_type t))),
      (''amount'', JFloat (amount t)),
      (''description'', JStr (description t)),
      (''target_account_id'', (case target_account_id t of None \<Rightarrow> JNull | Some a \<Rightarrow> JStr a)),
      (''created_at'', JStr (isoformat lib (tx_created_at t))),
      (''status'', JStr (TransactionStatus_value (status t))),
      (''reference_number'', JStr (reference_number t)),
      (''fee'', JFloat (fee t))]"

text \<open>
  \<open>Transaction.from_dict\<close>: the arguments of the constructor are evaluated in the order
  written, the constructor converts the amount with \<open>float\<close>, and the status is read
  after the object exists.
\<close>

definition Transaction_from_dict_raises :: "pylib \<Rightarrow> json \<Rightarrow> py_error option" where
  "Transaction_from_dict_raises lib d = first_error
     [err (subscript d ''transaction_id''),
      err (subscript d ''account_id''),
      err (then_type (subscript d ''transaction_type'')),
      err (subscript d ''amount''),
      err (json_get d ''description'' (JStr [])),
      err (json_get d ''target_account_id'' JNull),
      err (read_datetime lib d ''created_at''),
      err (then_float lib (subscript d ''amount'')),
      err (then_status (json_get d ''status'' (JStr ''pending'')))]"

definition Transaction_from_dict_value :: "pylib \<Rightarrow> draw \<Rightarrow> json \<Rightarrow> transaction option" where
  "Transaction_from_dict_value lib dr d = do {
     tid \<leftarrow> Option.bind (val (subscript d ''transaction_id'')) as_str;
     aid \<leftarrow> Option.bind (val (subscript d ''account_id'')) as_str;
     ty \<leftarrow> val (then_type (subscript d ''transaction_type''));
     amt \<leftarrow> val (then_float lib (subscript d ''amount''));
     descr \<leftarrow> Option.bind (val (json_get d ''description'' (JStr []))) as_str;
     target \<leftarrow> Option.bind (val (json_get d ''target_account_id'' JNull)) as_opt_str;
     created \<leftarrow> val (read_datetime lib d ''created_at'');
     st \<leftarrow> val (then_status (json_get d ''status'' (JStr ''pending'')));
     ref \<leftarrow> Option.bind
       (val (json_get d ''reference_number'' (JStr (generate_reference_number (randint dr))))) as_str;
     f \<leftarrow> Option.bind (val (json_get d ''fee'' (JFloat (Finite 0)))) as_num;
     Some ((Transaction_init dr tid aid ty amt descr target created)
             \<lparr>status := st, reference_number := ref, fee := f\<rparr>)
   }"

definition Transaction_from_dict :: "pylib \<Rightarrow> draw \<Rightarrow> json \<Rightarrow> transaction outcome" where
  "Transaction_from_dict lib dr d =
     outcome_of (Transaction_from_dict_raises lib d) (Transaction_from_dict_value lib dr d)"

section \<open>models/account.py\<close>

record account =
  account_id :: string
  user_id :: string
  account_number :: string
  account_type :: string
  balance :: pyfloat
  created_at :: datetime
  is_active :: bool
  daily_transaction_limit :: pyfloat
  monthly_transaction_limit :: pyfloat

definition Account_init ::
  "draw \<Rightarrow> string \<Rightarrow> string \<Rightarrow> string \<Rightarrow> string \<Rightarrow> pyfloat \<Rightarrow> datetime option \<Rightarrow> account" where
  "Account_init dr aid uid number ty bal created =
     \<lparr> account_id = aid,
       user_id = uid,
       account_number = number,
       account_type = ty,
       balance = bal,
       created_at = (case created of Some t \<Rightarrow> t | None \<Rightarrow> Naive (now dr)),
       is_active = True,
       daily_transaction_limit = Finite 50000,
       monthly_transaction_limit = Finite 500000 \<rparr>"

definition generate_account_number :: "nat \<Rightarrow> string" where
  "generate_account_number r = str_nat r"

definition Account_create_account :: "draw \<Rightarrow> string \<Rightarrow> string \<Rightarrow> pyfloat \<Rightarrow> account" where
  "Account_create_account dr uid ty initial_balance =
     Account_init dr (uuid4 dr) uid (generate_account_number (randint dr)) ty initial_balance None"

text \<open>\<open>Account.deposit\<close>, \<open>Account.withdraw\<close>: the returned flag and the object afterwards.\<close>

definition Account_deposit :: "account \<Rightarrow> pyfloat \<Rightarrow> bool \<times> account" where
  "Account_deposit a amt =
     (if amt \<le> 0 then (False, a) else (True, a\<lparr>balance := balance a + amt\<rparr>))"

definition Account_withdraw :: "account \<Rightarrow> pyfloat \<Rightarrow> bool \<times> account" where
  "Account_withdraw a amt =
     (if amt \<le> 0 \<or> amt > balance a then (False, a)
      else (True, a\<lparr>balance := balance a - amt\<rparr>))"

text \<open>
  \<open>Account.transfer_to\<close> mutates two objects, which may be one and the same. Both are
  named by their keys in the dict of accounts; the credit reads the balance after the
  debit has been written.
\<close>

definition transfer_to :: "account dict \<Rightarrow> string \<Rightarrow> string \<Rightarrow> pyfloat \<Rightarrow> bool \<times> account dict" where
  "transfer_to accs src dst amt =
     (case dict_get accs src of
        None \<Rightarrow> (False, accs)
      | Some a \<Rightarrow>
          if amt \<le> 0 \<or> amt > balance a then (False, accs)
          else
            let accs1 = dict_modify accs src (\<lambda>x. x\<lparr>balance := balance x - amt\<rparr>);
                accs2 = dict_modify accs1 dst (\<lambda>x. x\<lparr>balance := balance x + amt\<rparr>)
            in (True, accs2))"

definition Account_to_dict :: "pylib \<Rightarrow> account \<Rightarrow> json" where
  "Account_to_dict lib a = JObj
     [(''account_id'', JStr (account_id a)),
      (''user_id'', JStr (user_id a)),
      (''account_number'', JStr (account_number a)),
      (''account_type'', JStr (account_type a)),
      (''balance'', JFloat (balance a)),
      (''created_at'', JStr (isoformat lib (created_at a))),
      (''is_active'', JBool (is_active a)),
      (''daily_transaction_limit'', JFloat (daily_transaction_limit a)),
      (''monthly_transaction_limit'', JFloat (monthly_transaction_limit a))]"

definition Account_from_dict_raises :: "pylib \<Rightarrow> json \<Rightarrow> py_error option" where
  "Account_from_dict_raises lib d = first_error
     [err (subscript d ''account_id''),
      err (subscript d ''user_id''),
      err (subscript d ''account_number''),
      err (subscript d ''account_type''),
      err (subscript d ''balance''),
      err (read_datetime lib d ''created_at''),
      err (then_float lib (subscript d ''balance'')),
      err (json_get d ''is_active'' (JBool True)),
      err (json_get d ''daily_transaction_limit'' (JFloat (Finite 50000))),
      err (json_get d ''monthly_transaction_limit'' (JFloat (Finite 500000)))]"

definition Account_from_dict_value :: "pylib \<Rightarrow> draw \<Rightarrow> json \<Rightarrow> account option" where
  "Account_from_dict_value lib dr d = do {
     aid \<leftarrow> Option.bind (val (subscript d ''account_id'')) as_str;
     uid \<leftarrow> Option.bind (val (subscript d ''user_id'')) as_str;
     number \<leftarrow> Option.bind (val (subscript d ''account_number'')) as_str;
     ty \<leftarrow> Option.bind (val (subscript d ''account_type'')) as_str;
     bal \<leftarrow> val (then_float lib (subscript d ''balance''));
     created \<leftarrow> val (read_datetime lib d ''created_at'');
     active \<leftarrow> Option.bind (val (json_get d ''is_active'' (JBool True))) as_bool;
     daily \<leftarrow> Option.bind (val (json_get d ''daily_transaction_limit'' (JFloat (Finite 50000)))) as_num;
     monthly \<leftarrow> Option.bind (val (json_get d ''monthly_transaction_limit'' (JFloat (Finite 500000)))) as_num;
     Some ((Account_init dr aid uid number ty bal created)
             \<lparr>is_active := active, daily_transaction_limit := daily,
              monthly_transaction_limit := monthly\<rparr>)
   }"

definition Account_from_dict :: "pylib \<Rightarrow> draw \<Rightarrow> json \<Rightarrow> account outcome" where
  "Account_from_dict lib dr d =
     outcome_of (Account_from_dict_raises lib d) (Account_from_dict_value lib dr d)"

section \<open>models/user.py\<close>

record user =
  usr_user_id :: string
  username :: string
  email :: string
  phone :: string
  role :: string
  password_hash :: string
  usr_created_at :: datetime
  last_login :: "datetime option"
  usr_is_active :: bool

definition User_init ::
  "draw \<Rightarrow> string \<Rightarrow> string \<Rightarrow> string \<Rightarrow> string \<Rightarrow> string \<Rightarrow> string \<Rightarrow> datetime option \<Rightarrow> user" where
  "User_init dr uid name mail ph rl pwhash created =
     \<lparr> usr_user_id = uid,
       username = name,
       email = mail,
       phone = ph,
       role = rl,
       password_hash = pwhash,
       usr_created_at = (case created of Some t \<Rightarrow> t | None \<Rightarrow> Naive (now dr)),
       last_login = None,
       usr_is_active = True \<rparr>"

definition hash_password :: "pylib \<Rightarrow> string \<Rightarrow> string" where
  "hash_password lib password = sha256_hexdigest lib password"

definition create_user :: "pylib \<Rightarrow> draw \<Rightarrow> string \<Rightarrow> string \<Rightarrow> string \<Rightarrow> string \<Rightarrow> string \<Rightarrow> user" where
  "create_user lib dr name password mail ph rl =
     User_init dr (uuid4 dr) name mail ph rl (hash_password lib password) None"

definition verify_password :: "pylib \<Rightarrow> user \<Rightarrow> string \<Rightarrow> bool" where
  "verify_password lib u password \<longleftrightarrow> password_hash u = hash_password lib password"

definition User_to_dict :: "pylib \<Rightarrow> user \<Rightarrow> json" where
  "User_to_dict lib u = JObj
     [(''user_id'', JStr (usr_user_id u)),
      (''username'', JStr (username u)),
      (''email'', JStr (email u)),
      (''phone'', JStr (phone u)),
      (''role'', JStr (role u)),
      (''password_hash'', JStr (password_hash u)),
      (''created_at'', JStr (isoformat lib (usr_created_at u))),
      (''last_login'', (case last_login u of None \<Rightarrow> JNull | Some t \<Rightarrow> JStr (isoformat lib t))),
      (''is_active'', JBool (usr_is_active u))]"

definition User_from_dict_raises :: "pylib \<Rightarrow> json \<Rightarrow> py_error option" where
  "User_from_dict_raises lib d = first_error
     [err (subscript d ''user_id''),
      err (subscript d ''username''),
      err (subscript d ''email''),
      err (subscript d ''phone''),
      err (subscript d ''role''),
      err (subscript d ''password_hash''),
      err (read_datetime lib d ''created_at''),
      err (read_datetime lib d ''last_login''),
      err (json_get d ''is_active'' (JBool True))]"

definition User_from_dict_value :: "pylib \<Rightarrow> draw \<Rightarrow> json \<Rightarrow> user option" where
  "User_from_dict_value lib dr d = do {
     uid \<leftarrow> Option.bind (val (subscript d ''user_id'')) as_str;
     name \<leftarrow> Option.bind (val (subscript d ''username'')) as_str;
     mail \<leftarrow> Option.bind (val (subscript d ''email'')) as_str;
     ph \<leftarrow> Option.bind (val (subscript d ''phone'')) as_str;
     rl \<leftarrow> Option.bind (val (subscript d ''role'')) as_str;
     pwhash \<leftarrow> Option.bind (val (subscript d ''password_hash'')) as_str;
     created \<leftarrow> val (read_datetime lib d ''created_at'');
     login \<leftarrow> val (read_datetime lib d ''last_login'');
     active \<leftarrow> Option.bind (val (json_get d ''is_active'' (JBool True))) as_bool;
     Some ((User_init dr uid name mail ph rl pwhash created)
             \<lparr>last_login := login, usr_is_active := active\<rparr>)
   }"

definition User_from_dict :: "pylib \<Rightarrow> draw \<Rightarrow> json \<Rightarrow> user outcome" where
  "User_from_dict lib dr d =
     outcome_of (User_from_dict_raises lib d) (User_from_dict_value lib dr d)"

section \<open>utils/data_manager.py\<close>

text \<open>
  \<open>save_*\<close> writes the dict of \<open>to_dict\<close> images with \<open>json.dump\<close>; the file then decodes to
  that JSON value. \<open>load_*\<close> returns the empty dict for an absent file; otherwise it decodes
  the file, iterates \<open>items()\<close> of the decoded value (AttributeError when that is no dict),
  builds the result with \<open>from_dict\<close>, and turns JSONDecodeError, KeyError and ValueError
  into the empty dict. Any other exception leaves the function. The draws serve the
  defaults of absent fields, one draw for each key.
\<close>

primrec load_items ::
  "(string \<Rightarrow> json \<Rightarrow> 'a outcome) \<Rightarrow> (string \<times> json) list \<Rightarrow> 'a dict option \<Rightarrow> 'a dict outcome" where
  "load_items f [] acc = (case acc of Some d \<Rightarrow> Returned d | None \<Rightarrow> Untypable)"
| "load_items f (kv # kvs) acc =
     (case f (fst kv) (snd kv) of
        Raised e \<Rightarrow> Raised e
      | Untypable \<Rightarrow> load_items f kvs None
      | Returned v \<Rightarrow> load_items f kvs (map_option (\<lambda>d. dict_set d (fst kv) v) acc))"

definition json_load :: "data_file \<Rightarrow> py_error + json" where
  "json_load fl = (case fl of Decoded j \<Rightarrow> Inr j | _ \<Rightarrow> Inl JSONDecodeError)"

definition caught :: "py_error \<Rightarrow> bool" where
  "caught e \<longleftrightarrow> e = JSONDecodeError \<or> e = KeyError \<or> e = ValueError"

definition load_collection ::
  "(string \<Rightarrow> json \<Rightarrow> 'a outcome) \<Rightarrow> data_file \<Rightarrow> 'a dict outcome" where
  "load_collection f fl =
     (if fl = Missing then Returned []
      else
        (case (case json_load fl of
                 Inl e \<Rightarrow> Raised e
               | Inr j \<Rightarrow>
                   (case j of JObj kvs \<Rightarrow> load_items f kvs (Some []) | _ \<Rightarrow> Raised AttributeError))
         of Raised e \<Rightarrow> if caught e then Returned [] else Raised e
          | r \<Rightarrow> r))"

definition save_collection :: "('a \<Rightarrow> json) \<Rightarrow> 'a dict \<Rightarrow> data_file" where
  "save_collection to_dict d = Decoded (JObj (map (\<lambda>kv. (fst kv, to_dict (snd kv))) d))"

definition save_users :: "pylib \<Rightarrow> user dict \<Rightarrow> data_file" where
  "save_users lib us = save_collection (User_to_dict lib) us"

definition load_users :: "pylib \<Rightarrow> (string \<Rightarrow> draw) \<Rightarrow> data_file \<Rightarrow> user dict outcome" where
  "load_users lib draws fl = load_collection (\<lambda>k. User_from_dict lib (draws k)) fl"

definition save_accounts :: "pylib \<Rightarrow> account dict \<Rightarrow> data_file" where
  "save_accounts lib accs = save_collection (Account_to_dict lib) accs"

definition load_accounts :: "pylib \<Rightarrow> (string \<Rightarrow> draw) \<Rightarrow> data_file \<Rightarrow> account dict outcome" where
  "load_accounts lib draws fl = load_collection (\<lambda>k. Account_from_dict lib (draws k)) fl"

definition save_transactions :: "pylib \<Rightarrow> transaction dict \<Rightarrow> data_file" where
  "save_transactions lib txs = save_collection (Transaction_to_dict lib) txs"

definition load_transactions ::
  "pylib \<Rightarrow> (string \<Rightarrow> draw) \<Rightarrow> data_file \<Rightarrow> transaction dict outcome" where
  "load_transactions lib draws fl = load_collection (\<lambda>k. Transaction_from_dict lib (draws k)) fl"

section \<open>utils/auth.py\<close>

text \<open>The identity store: its dict of users and the users file it writes.\<close>

record auth_manager =
  am_users :: "user dict"
  users_file :: data_file

text \<open>The loop of \<open>register_user\<close> over \<open>self.users.values()\<close>.\<close>

primrec username_taken :: "user list \<Rightarrow> string \<Rightarrow> bool" where
  "username_taken [] name = False"
| "username_taken (u # us) name = (if username u = name then True else username_taken us name)"

definition register_user ::
  "pylib \<Rightarrow> draw \<Rightarrow> auth_manager \<Rightarrow> string \<Rightarrow> string \<Rightarrow> string \<Rightarrow> string \<Rightarrow> string
     \<Rightarrow> bool \<times> auth_manager" where
  "register_user lib dr am name password mail ph rl =
     (if username_taken (dict_values (am_users am)) name then (False, am)
      else
        let new_user = create_user lib dr name password mail ph rl;
            us = dict_set (am_users am) (usr_user_id new_user) new_user
        in (True, am\<lparr>am_users := us, users_file := save_users lib us\<rparr>))"

section \<open>models/bank_system.py\<close>

text \<open>The engine: its three dicts and the two files it writes.\<close>

record bank_system =
  users :: "user dict"
  accounts :: "account dict"
  transactions :: "transaction dict"
  accounts_file :: data_file
  transactions_file :: data_file

definition create_account ::
  "pylib \<Rightarrow> draw \<Rightarrow> draw \<Rightarrow> bank_system \<Rightarrow> string \<Rightarrow> string \<Rightarrow> pyfloat \<Rightarrow> account \<times> bank_system" where
  "create_account lib dr dr' s uid ty initial_balance =
     (let a = Account_create_account dr uid ty initial_balance;
          accs = dict_set (accounts s) (account_id a) a;
          txs =
            (if initial_balance > 0 then
               let t = complete_transaction
                         (create_transaction dr' (account_id a) DEPOSIT initial_balance
                            ''Initial deposit'' None)
               in dict_set (transactions s) (transaction_id t) t
             else transactions s)
      in (a, s\<lparr>accounts := accs, transactions := txs,
                accounts_file := save_accounts lib accs,
                transactions_file := save_transactions lib txs\<rparr>))"

text \<open>
  \<open>get_account_by_number\<close> returns the first active account of \<open>values()\<close> with the number;
  the model returns it with its key, which names the object. \<open>get_account_by_id\<close> is
  \<open>self.accounts.get\<close>.
\<close>

definition get_account_by_number :: "bank_system \<Rightarrow> string \<Rightarrow> (string \<times> account) option" where
  "get_account_by_number s number =
     find (\<lambda>kv. account_number (snd kv) = number \<and> is_active (snd kv)) (accounts s)"

definition get_account_by_id :: "bank_system \<Rightarrow> string \<Rightarrow> account option" where
  "get_account_by_id s aid = dict_get (accounts s) aid"

definition deposit ::
  "pylib \<Rightarrow> draw \<Rightarrow> bank_system \<Rightarrow> string \<Rightarrow> pyfloat \<Rightarrow> string \<Rightarrow> bool \<times> bank_system" where
  "deposit lib dr s aid amt descr =
     (case get_account_by_id s aid of
        None \<Rightarrow> (False, s)
      | Some a \<Rightarrow>
          if amt \<le> 0 then (False, s)
          else
            let t = create_transaction dr aid DEPOSIT amt descr None;
                r = Account_deposit a amt
            in if fst r then
                 let t' = complete_transaction t;
                     accs = dict_modify (accounts s) aid (\<lambda>_. snd r);
                     txs = dict_set (transactions s) (transaction_id t') t'
                 in (True, s\<lparr>accounts := accs, transactions := txs,
                              accounts_file := save_accounts lib accs,
                              transactions_file := save_transactions lib txs\<rparr>)
               else
                 let t' = fail_transaction t;
                     txs = dict_set (transactions s) (transaction_id t') t'
                 in (False, s\<lparr>transactions := txs,
                               transactions_file := save_transactions lib txs\<rparr>))"

definition withdraw ::
  "pylib \<Rightarrow> draw \<Rightarrow> bank_system \<Rightarrow> string \<Rightarrow> pyfloat \<Rightarrow> string \<Rightarrow> bool \<times> bank_system" where
  "withdraw lib dr s aid amt descr =
     (case get_account_by_id s aid of
        None \<Rightarrow> (False, s)
      | Some a \<Rightarrow>
          if amt \<le> 0 then (False, s)
          else
            let t = create_transaction dr aid WITHDRAWAL amt descr None;
                r = Account_withdraw a amt
            in if fst r then
                 let t' = complete_transaction t;
                     accs = dict_modify (accounts s) aid (\<lambda>_. snd r);
                     txs = dict_set (transactions s) (transaction_id t') t'
                 in (True, s\<lparr>accounts := accs, transactions := txs,
                              accounts_file := save_accounts lib accs,
                              transactions_file := save_transactions lib txs\<rparr>)
               else
                 let t' = fail_transaction t;
                     txs = dict_set (transactions s) (transaction_id t') t'
                 in (False, s\<lparr>transactions := txs,
                               transactions_file := save_transactions lib txs\<rparr>))"

definition transfer ::
  "pylib \<Rightarrow> draw \<Rightarrow> draw \<Rightarrow> bank_system \<Rightarrow> string \<Rightarrow> string \<Rightarrow> pyfloat \<Rightarrow> string
     \<Rightarrow> bool \<times> bank_system" where
  "transfer lib dr dr' s from_account_id to_account_number amt descr =
     (case get_account_by_id s from_account_id of
        None \<Rightarrow> (False, s)
      | Some from_account \<Rightarrow>
          (case get_account_by_number s to_account_number of
             None \<Rightarrow> (False, s)
           | Some (to_key, to_account) \<Rightarrow>
               if amt \<le> 0 then (False, s)
               else
                 let t = create_transaction dr from_account_id TRANSFER amt descr
                           (Some (account_id to_account));
                     r = transfer_to (accounts s) from_account_id to_key amt
                 in if fst r then
                      let t' = complete_transaction t;
                          txs = dict_set (transactions s) (transaction_id t') t';
                          deposit_transaction = complete_transaction
                            (create_transaction dr' (account_id to_account) DEPOSIT amt
                               (''Transfer from '' @ account_number from_account)
                               (Some (account_id from_account)));
                          txs' = dict_set txs (transaction_id deposit_transaction)
                                   deposit_transaction
                      in (True, s\<lparr>accounts := snd r, transactions := txs',
                                   accounts_file := save_accounts lib (snd r),
                                   transactions_file := save_transactions lib txs'\<rparr>)
                    else
                      let t' = fail_transaction t;
                          txs = dict_set (transactions s) (transaction_id t') t'
                      in (False, s\<lparr>transactions := txs,
                                    transactions_file := save_transactions lib txs\<rparr>)))"

text \<open>
  Python's \<open>sum\<close> adds from the left, starting at 0, and rounds after every addition (the
  plain float addition of CPython before 3.12).
\<close>

definition py_sum :: "pyfloat list \<Rightarrow> pyfloat" where
  "py_sum xs = foldl (+) 0 xs"







record stats =
  total_users :: nat
  total_accounts :: nat
  total_balance :: pyfloat
  stats_total_transactions :: nat

definition get_system_stats :: "bank_system \<Rightarrow> stats" where
  "get_system_stats s =
     \<lparr> total_users = length (filter usr_is_active (dict_values (users s))),
       total_accounts = length (filter is_active (dict_values (accounts s))),
       total_balance = py_sum (map balance (filter is_active (dict_values (accounts s)))),
       stats_total_transactions = length (transactions s) \<rparr>"

section \<open>Notions of the specification\<close>






fun is_finite :: "pyfloat \<Rightarrow> bool" where
  "is_finite (Finite x) = True"
| "is_finite _ = False"

definition balances_nonneg :: "account dict \<Rightarrow> bool" where
  "balances_nonneg accs = list_all (\<lambda>kv. 0 \<le> balance (snd kv)) accs"

text \<open>
  A sequence of committed operations: each operation with the draws it consumes, applied
  from left to right to the state of the engine.
\<close>

datatype operation =
    CreateAccount draw draw string string pyfloat
  | Deposit draw string pyfloat string
  | Withdraw draw string pyfloat string
  | Transfer draw draw string string pyfloat string

fun apply_operation :: "pylib \<Rightarrow> bank_system \<Rightarrow> operation \<Rightarrow> bank_system" where
  "apply_operation lib s (CreateAccount dr dr' uid ty initial_balance) =
     snd (create_account lib dr dr' s uid ty initial_balance)"
| "apply_operation lib s (Deposit dr aid amt descr) = snd (deposit lib dr s aid amt descr)"
| "apply_operation lib s (Withdraw dr aid amt descr) = snd (withdraw lib dr s aid amt descr)"
| "apply_operation lib s (Transfer dr dr' aid number amt descr) =
     snd (transfer lib dr dr' s aid number amt descr)"

definition run_operations :: "pylib \<Rightarrow> bank_system \<Rightarrow> operation list \<Rightarrow> bank_system" where
  "run_operations lib s ops = foldl (apply_operation lib) s ops"

text \<open>An operation with a finite amount that opens no account below zero.\<close>

fun opens_in_credit :: "operation \<Rightarrow> bool" where
  "opens_in_credit (CreateAccount dr dr' uid ty initial_balance) = (0 \<le> initial_balance)"
| "opens_in_credit (Deposit dr aid amt descr) = is_finite amt"
| "opens_in_credit (Withdraw dr aid amt descr) = is_finite amt"
| "opens_in_credit (Transfer dr dr' aid number amt descr) = is_finite amt"

text \<open>
  What the round trip through a file needs of the library: \<open>fromisoformat\<close> reads back what
  \<open>isoformat\<close> wrote, and \<open>isoformat\<close> never writes the empty string (which \<open>from_dict\<close>
  would take for an absent timestamp).
\<close>

definition codec_ok :: "pylib \<Rightarrow> bool" where
  "codec_ok lib \<longleftrightarrow> (\<forall>t. fromisoformat lib (isoformat lib t) = Inr t \<and> isoformat lib t \<noteq> [])"

section \<open>Example values\<close>

text \<open>
  A stand-in for the library functions, to run the model on examples: a timestamp is
  written as a letter for its kind, the signs of its numbers, and as many strokes of one
  kind as the count, of another kind as the offset.
\<close>

definition sign_char :: "int \<Rightarrow> char" where
  "sign_char n = (if n < 0 then CHR ''-'' else CHR ''+'')"

definition signed :: "char \<Rightarrow> nat \<Rightarrow> int" where
  "signed c n = (if c = CHR ''-'' then - int n else int n)"

definition stub_isoformat :: "datetime \<Rightarrow> string" where
  "stub_isoformat t =
     (case t of
        Naive c \<Rightarrow> CHR ''n'' # sign_char c # replicate (nat \<bar>c\<bar>) CHR ''1''
      | Aware c off \<Rightarrow>
          CHR ''a'' # sign_char c # sign_char off
            # replicate (nat \<bar>c\<bar>) CHR ''1'' @ replicate (nat \<bar>off\<bar>) CHR ''2'')"

definition stub_fromisoformat :: "string \<Rightarrow> py_error + datetime" where
  "stub_fromisoformat s =
     (case s of
        k # sc # rest \<Rightarrow>
          if k = CHR ''n'' then Inr (Naive (signed sc (length rest)))
          else
            (case rest of
               so # body \<Rightarrow>
                 Inr (Aware (signed sc (length (filter (\<lambda>x. x = CHR ''1'') body)))
                            (signed so (length (filter (\<lambda>x. x = CHR ''2'') body))))
             | [] \<Rightarrow> Inl ValueError)
      | _ \<Rightarrow> Inl ValueError)"

definition stub_lib :: pylib where
  "stub_lib =
     \<lparr> isoformat = stub_isoformat,
       fromisoformat = stub_fromisoformat,
       float_of_str = (\<lambda>s. Inl ValueError),
       sha256_hexdigest = (\<lambda>s. rev s) \<rparr>"

definition account_A :: account where
  "account_A =
     \<lparr> account_id = ''acc-a'', user_id = ''u1'', account_number = ''1000000001'',
       account_type = ''savings'', balance = Finite 100, created_at = Naive 0, is_active = True,
       daily_transaction_limit = Finite 50000, monthly_transaction_limit = Finite 500000 \<rparr>"

definition account_B :: account where
  "account_B =
     \<lparr> account_id = ''acc-b'', user_id = ''u2'', account_number = ''1000000002'',
       account_type = ''checking'', balance = Finite 0, created_at = Naive 0, is_active = True,
       daily_transaction_limit = Finite 50000, monthly_transaction_limit = Finite 500000 \<rparr>"

definition bank_of :: "account dict \<Rightarrow> transaction dict \<Rightarrow> bank_system" where
  "bank_of accs txs =
     \<lparr> users = [], accounts = accs, transactions = txs,
       accounts_file = Missing, transactions_file = Missing \<rparr>"

definition draw_1 :: draw where
  "draw_1 = \<lparr> uuid4 = ''tx-1'', now = 1, randint = 123456 \<rparr>"

definition draw_2 :: draw where
  "draw_2 = \<lparr> uuid4 = ''tx-2'', now = 2, randint = 654321 \<rparr>"

definition draw_3 :: draw where
  "draw_3 = \<lparr> uuid4 = ''acc-n'', now = 3, randint = 1000000003 \<rparr>"

definition tx_deposit :: transaction where
  "tx_deposit =
     \<lparr> transaction_id = ''tx-d'', tx_account_id = ''acc-a'', transaction_type = DEPOSIT,
       amount = Finite 250, description = ''Initial deposit'', target_account_id = None,
       tx_created_at = Naive 10, status = COMPLETED, reference_number = ''TXN100001'',
       fee = Finite 0 \<rparr>"


definition tx_failed :: transaction where
  "tx_failed =
     \<lparr> transaction_id = ''tx-f'', tx_account_id = ''acc-a'', transaction_type = WITHDRAWAL,
       amount = Finite 2000, description = [], target_account_id = Some ''acc-b'',
       tx_created_at = Naive 30, status = FAILED, reference_number = ''TXN100003'',
       fee = Finite 0 \<rparr>"



definition user_admin :: user where
  "user_admin =
     \<lparr> usr_user_id = ''usr-1'', username = ''admin'', email = ''admin@bank.com'',
       phone = ''1234567890'', role = ''admin'', password_hash = ''0000'',
       usr_created_at = Naive 0, last_login = Some (Aware 7 3600), usr_is_active = False \<rparr>"

section \<open>Facts about floats\<close>

lemmas float_ops = zero_pyfloat_def plus_pyfloat_def minus_pyfloat_def less_eq_pyfloat_def
  less_pyfloat_def float_sub_def

lemmas float_eval = round_double_def magnitude_def normalise_def scale_down.simps scale_up.simps
  round_half_even_def pow2_def

lemma float_less_not_le: "x < y \<Longrightarrow> \<not> y \<le> x" for x y :: pyfloat
  by (cases x; cases y) (simp_all add: float_ops)

lemma float_le_not_less: "x \<le> y \<Longrightarrow> \<not> y < x" for x y :: pyfloat
  by (cases x; cases y) (simp_all add: float_ops)

lemma scale_down_nonneg: "0 \<le> x \<Longrightarrow> 0 \<le> fst (scale_down x e)"
proof (induction x e rule: scale_down.induct)
  case (1 x e)
  then show ?case by (subst scale_down.simps) simp
qed

lemma scale_up_nonneg: "0 \<le> x \<Longrightarrow> 0 \<le> fst (scale_up x e)"
proof (induction x e rule: scale_up.induct)
  case (1 x e)
  then show ?case by (subst scale_up.simps) simp
qed

lemma round_half_even_nonneg: "0 \<le> q \<Longrightarrow> 0 \<le> round_half_even q"
  by (simp add: round_half_even_def)

lemma pow2_pos: "0 < pow2 e"
  by (simp add: pow2_def)

lemma magnitude_nonneg: "0 \<le> a \<Longrightarrow> 0 \<le> magnitude a"
  unfolding magnitude_def normalise_def
  by (intro mult_nonneg_nonneg)
    (simp_all add: round_half_even_nonneg scale_up_nonneg scale_down_nonneg less_imp_le [OF pow2_pos])

lemma round_double_nonneg: "0 \<le> x \<Longrightarrow> float_le (Finite 0) (round_double x)"
  using magnitude_nonneg [of "\<bar>x\<bar>"]
  by (simp add: round_double_def)

lemma float_add_nonneg: "0 \<le> x \<Longrightarrow> 0 \<le> y \<Longrightarrow> 0 \<le> x + y" for x y :: pyfloat
  by (cases x; cases y) (simp_all add: float_ops round_double_nonneg)

lemma float_sub_nonneg:
  "0 \<le> x \<Longrightarrow> is_finite y \<Longrightarrow> \<not> x < y \<Longrightarrow> 0 \<le> x - y" for x y :: pyfloat
  by (cases x; cases y) (simp_all add: float_ops round_double_nonneg)

lemma not_le_zero_pos: "is_finite y \<Longrightarrow> \<not> y \<le> 0 \<Longrightarrow> 0 \<le> y" for y :: pyfloat
  by (cases y) (simp_all add: float_ops)

section \<open>Facts about dictionaries\<close>

lemma dict_set_fresh: "k \<notin> fst ` set d \<Longrightarrow> dict_set d k v = d @ [(k, v)]"
  by (induction d) auto

lemma map_of_dict_set: "map_of (dict_set d k v) = (map_of d)(k \<mapsto> v)"
  by (induction d) (auto simp: fun_eq_iff)

lemma map_of_dict_modify:
  "map_of (dict_modify d k f) k' = (if k' = k then map_option f (map_of d k) else map_of d k')"
  by (induction d) auto

lemma find_found_iff: "find P xs \<noteq> None \<longleftrightarrow> (\<exists>x\<in>set xs. P x)"
  by (induction xs) auto

lemma find_SomeD: "find P xs = Some x \<Longrightarrow> P x \<and> x \<in> set xs"
  by (induction xs) (auto split: if_splits)

lemma find_map_of:
  assumes "find P d = Some (k, v)" and "distinct (map fst d)"
  shows "map_of d k = Some v"
  using assms by (auto dest: find_SomeD)

lemma transaction_id_create [simp]:
  "transaction_id (complete_transaction (create_transaction dr aid ty amt descr tg)) = uuid4 dr"
  "transaction_id (fail_transaction (create_transaction dr aid ty amt descr tg)) = uuid4 dr"
  by (simp_all add: complete_transaction_def fail_transaction_def create_transaction_def
      Transaction_init_def)

lemma completed_fields:
  "transaction_type (complete_transaction (create_transaction dr aid ty amt descr tg)) = ty
   \<and> status (complete_transaction (create_transaction dr aid ty amt descr tg)) = COMPLETED
   \<and> tx_account_id (complete_transaction (create_transaction dr aid ty amt descr tg)) = aid
   \<and> amount (complete_transaction (create_transaction dr aid ty amt descr tg)) = amt
   \<and> target_account_id (complete_transaction (create_transaction dr aid ty amt descr tg)) = tg"
  by (simp add: complete_transaction_def create_transaction_def Transaction_init_def)

lemmas example_defs = account_A_def account_B_def bank_of_def draw_1_def draw_2_def draw_3_def

section \<open>Rejected deposits\<close>

text \<open>
  Claim C5. A deposit of an amount that is zero or negative, and a deposit to an account
  id that the engine does not hold, returns \<open>False\<close> and leaves the whole state of the
  engine as it was: no balance changes, and no transaction of any status is recorded.
\<close>

theorem deposit_rejected_unchanged:
  "amt \<le> 0 \<or> get_account_by_id s aid = None \<Longrightarrow> deposit lib dr s aid amt descr = (False, s)"
  by (auto simp: deposit_def split: option.splits)

theorem deposit_rejected_unchanged_witness:
  "(Finite (- 1) \<le> 0 \<or> get_account_by_id (bank_of [(''acc-a'', account_A)] []) ''acc-a'' = None)
   \<and> deposit stub_lib draw_1 (bank_of [(''acc-a'', account_A)] []) ''acc-a'' (Finite (- 1)) []
       = (False, bank_of [(''acc-a'', account_A)] [])
   \<and> get_account_by_id (bank_of [(''acc-a'', account_A)] []) ''acc-z'' = None
   \<and> deposit stub_lib draw_1 (bank_of [(''acc-a'', account_A)] []) ''acc-z'' (Finite 25) []
       = (False, bank_of [(''acc-a'', account_A)] [])"
  using deposit_rejected_unchanged
          [where amt = "Finite (- 1)" and s = "bank_of [(''acc-a'', account_A)] []"
             and aid = "''acc-a''" and lib = stub_lib and dr = draw_1 and descr = "[]"]
        deposit_rejected_unchanged
          [where amt = "Finite 25" and s = "bank_of [(''acc-a'', account_A)] []"
             and aid = "''acc-z''" and lib = stub_lib and dr = draw_1 and descr = "[]"]
  by (simp add: get_account_by_id_def dict_get_def bank_of_def float_ops)

section \<open>Withdrawals beyond the balance\<close>

text \<open>
  Claim C4. For an account that exists and an amount that is positive and larger than its
  balance, \<open>withdraw\<close> returns \<open>False\<close>, leaves the accounts as they were, and appends
  one transaction to the store, of type withdrawal and status failed, for that account
  and amount. The identifier drawn for the transaction is new to the store.
\<close>

theorem withdraw_insufficient_recorded:
  assumes "get_account_by_id s aid = Some a" and "0 < amt" and "balance a < amt"
    and "uuid4 dr \<notin> fst ` set (transactions s)"
  shows "\<exists>t. fst (withdraw lib dr s aid amt descr) = False
           \<and> accounts (snd (withdraw lib dr s aid amt descr)) = accounts s
           \<and> get_account_by_id (snd (withdraw lib dr s aid amt descr)) aid = Some a
           \<and> transactions (snd (withdraw lib dr s aid amt descr)) = transactions s @ [(uuid4 dr, t)]
           \<and> transaction_type t = WITHDRAWAL \<and> status t = FAILED
           \<and> tx_account_id t = aid \<and> amount t = amt"
  using assms float_less_not_le [of 0 amt]
  by (simp add: withdraw_def Account_withdraw_def Let_def create_transaction_def
      Transaction_init_def fail_transaction_def dict_set_fresh get_account_by_id_def)

theorem withdraw_insufficient_recorded_witness:
  "get_account_by_id (bank_of [(''acc-a'', account_A)] [(''tx-d'', tx_deposit)]) ''acc-a''
     = Some account_A
   \<and> 0 < Finite 2000 \<and> balance account_A < Finite 2000
   \<and> uuid4 draw_1 \<notin> fst ` set (transactions (bank_of [(''acc-a'', account_A)] [(''tx-d'', tx_deposit)]))
   \<and> (\<exists>t. fst (withdraw stub_lib draw_1 (bank_of [(''acc-a'', account_A)] [(''tx-d'', tx_deposit)])
                 ''acc-a'' (Finite 2000) []) = False
         \<and> accounts (snd (withdraw stub_lib draw_1
                 (bank_of [(''acc-a'', account_A)] [(''tx-d'', tx_deposit)]) ''acc-a'' (Finite 2000) []))
             = [(''acc-a'', account_A)]
         \<and> transactions (snd (withdraw stub_lib draw_1
                 (bank_of [(''acc-a'', account_A)] [(''tx-d'', tx_deposit)]) ''acc-a'' (Finite 2000) []))
             = [(''tx-d'', tx_deposit), (''tx-1'', t)]
         \<and> transaction_type t = WITHDRAWAL \<and> status t = FAILED)"
proof -
  have h1: "get_account_by_id (bank_of [(''acc-a'', account_A)] [(''tx-d'', tx_deposit)]) ''acc-a''
      = Some account_A"
    by (simp add: get_account_by_id_def dict_get_def bank_of_def)
  have h2: "0 < Finite 2000" by (simp add: float_ops)
  have h3: "balance account_A < Finite 2000" by (simp add: account_A_def float_ops)
  have h4: "uuid4 draw_1
      \<notin> fst ` set (transactions (bank_of [(''acc-a'', account_A)] [(''tx-d'', tx_deposit)]))"
    by (simp add: draw_1_def bank_of_def)
  from withdraw_insufficient_recorded [OF h1 h2 h3 h4, where lib = stub_lib and descr = "[]"]
    h1 h2 h3 h4
  show ?thesis
    by (simp add: bank_of_def draw_1_def) blast
qed

section \<open>Money operations on a deactivated account\<close>

lemma deposit_accepted:
  assumes "get_account_by_id s aid = Some a" and "\<not> amt \<le> 0"
  shows "fst (deposit lib dr s aid amt descr)
     \<and> get_account_by_id (snd (deposit lib dr s aid amt descr)) aid
         = Some (a\<lparr>balance := balance a + amt\<rparr>)
     \<and> transactions (snd (deposit lib dr s aid amt descr))
         = dict_set (transactions s) (uuid4 dr)
             (complete_transaction (create_transaction dr aid DEPOSIT amt descr None))"
  using assms
  by (simp add: deposit_def Account_deposit_def Let_def get_account_by_id_def dict_get_def
      map_of_dict_modify)

lemma withdraw_accepted:
  assumes "get_account_by_id s aid = Some a" and "\<not> amt \<le> 0" and "\<not> balance a < amt"
  shows "fst (withdraw lib dr s aid amt descr)
     \<and> get_account_by_id (snd (withdraw lib dr s aid amt descr)) aid
         = Some (a\<lparr>balance := balance a - amt\<rparr>)
     \<and> transactions (snd (withdraw lib dr s aid amt descr))
         = dict_set (transactions s) (uuid4 dr)
             (complete_transaction (create_transaction dr aid WITHDRAWAL amt descr None))"
  using assms
  by (simp add: withdraw_def Account_withdraw_def Let_def get_account_by_id_def dict_get_def
      map_of_dict_modify)

lemma transfer_accepted:
  assumes src: "get_account_by_id s ka = Some a"
    and dst: "get_account_by_number s n = Some (kb, b)"
    and amt: "\<not> amt \<le> 0" "\<not> balance a < amt"
  shows "transfer lib dr dr' s ka n amt descr
     = (True,
        s\<lparr>accounts :=
            dict_modify (dict_modify (accounts s) ka (\<lambda>x. x\<lparr>balance := balance x - amt\<rparr>)) kb
              (\<lambda>x. x\<lparr>balance := balance x + amt\<rparr>),
          transactions :=
            dict_set
              (dict_set (transactions s) (uuid4 dr)
                 (complete_transaction
                    (create_transaction dr ka TRANSFER amt descr (Some (account_id b)))))
              (uuid4 dr')
              (complete_transaction
                 (create_transaction dr' (account_id b) DEPOSIT amt
                    (''Transfer from '' @ account_number a) (Some (account_id a)))),
          accounts_file := save_accounts lib
            (dict_modify (dict_modify (accounts s) ka (\<lambda>x. x\<lparr>balance := balance x - amt\<rparr>)) kb
              (\<lambda>x. x\<lparr>balance := balance x + amt\<rparr>)),
          transactions_file := save_transactions lib
            (dict_set
              (dict_set (transactions s) (uuid4 dr)
                 (complete_transaction
                    (create_transaction dr ka TRANSFER amt descr (Some (account_id b)))))
              (uuid4 dr')
              (complete_transaction
                 (create_transaction dr' (account_id b) DEPOSIT amt
                    (''Transfer from '' @ account_number a) (Some (account_id a)))))\<rparr>)"
  using assms
  by (simp add: transfer_def transfer_to_def get_account_by_id_def dict_get_def Let_def)

text \<open>
  Claim C10. The money operations look the source account up by its internal id, which
  returns any account, and never read its active flag. For a deactivated account in the
  store and a positive amount, \<open>deposit\<close> succeeds: it credits the account and records a
  completed deposit. When the amount is within the balance, \<open>withdraw\<close> succeeds, debits
  the account and records a completed withdrawal; \<open>transfer\<close> succeeds exactly when some
  active account carries the destination number, and then debits the source, credits
  that account and records the completed transfer and deposit; otherwise it leaves the
  state as it was. The lookup by account number returns active accounts only.
\<close>

theorem inactive_source_accepted:
  assumes keys: "distinct (map fst (accounts s))"
    and src: "get_account_by_id s aid = Some a" and inactive: "\<not> is_active a"
    and pos: "0 < amt"
  shows "fst (deposit lib dr s aid amt descr)
     \<and> get_account_by_id (snd (deposit lib dr s aid amt descr)) aid
         = Some (a\<lparr>balance := balance a + amt\<rparr>)
     \<and> (\<exists>t. transactions (snd (deposit lib dr s aid amt descr))
               = dict_set (transactions s) (uuid4 dr) t
            \<and> transaction_type t = DEPOSIT \<and> status t = COMPLETED
            \<and> tx_account_id t = aid \<and> amount t = amt)
     \<and> (amt \<le> balance a \<longrightarrow>
          fst (withdraw lib dr s aid amt descr)
          \<and> get_account_by_id (snd (withdraw lib dr s aid amt descr)) aid
              = Some (a\<lparr>balance := balance a - amt\<rparr>)
          \<and> (\<exists>t. transactions (snd (withdraw lib dr s aid amt descr))
                    = dict_set (transactions s) (uuid4 dr) t
                 \<and> transaction_type t = WITHDRAWAL \<and> status t = COMPLETED
                 \<and> tx_account_id t = aid \<and> amount t = amt)
          \<and> (fst (transfer lib dr dr' s aid n amt descr)
               \<longleftrightarrow> (\<exists>kv\<in>set (accounts s). account_number (snd kv) = n \<and> is_active (snd kv)))
          \<and> (get_account_by_number s n = None
               \<longrightarrow> snd (transfer lib dr dr' s aid n amt descr) = s)
          \<and> (\<forall>kb b. get_account_by_number s n = Some (kb, b) \<longrightarrow>
                get_account_by_id (snd (transfer lib dr dr' s aid n amt descr)) aid
                  = Some (a\<lparr>balance := balance a - amt\<rparr>)
              \<and> get_account_by_id (snd (transfer lib dr dr' s aid n amt descr)) kb
                  = Some (b\<lparr>balance := balance b + amt\<rparr>)
              \<and> (\<exists>t d. transactions (snd (transfer lib dr dr' s aid n amt descr))
                        = dict_set (dict_set (transactions s) (uuid4 dr) t) (uuid4 dr') d
                     \<and> transaction_type t = TRANSFER \<and> status t = COMPLETED
                     \<and> tx_account_id t = aid \<and> amount t = amt
                     \<and> target_account_id t = Some (account_id b)
                     \<and> transaction_type d = DEPOSIT \<and> status d = COMPLETED
                     \<and> tx_account_id d = account_id b \<and> amount d = amt
                     \<and> target_account_id d = Some (account_id a))))
     \<and> (\<forall>k b. get_account_by_number s n = Some (k, b) \<longrightarrow> is_active b \<and> account_number b = n)"
proof -
  let ?P = "\<lambda>kv. account_number (snd kv) = n \<and> is_active (snd kv)"
  from pos have nonzero: "\<not> amt \<le> 0" by (rule float_less_not_le)
  from src have ma: "map_of (accounts s) aid = Some a"
    by (simp add: get_account_by_id_def dict_get_def)
  note d = deposit_accepted [OF src nonzero, of lib dr descr]
  have dep: "fst (deposit lib dr s aid amt descr)
     \<and> get_account_by_id (snd (deposit lib dr s aid amt descr)) aid
         = Some (a\<lparr>balance := balance a + amt\<rparr>)
     \<and> (\<exists>t. transactions (snd (deposit lib dr s aid amt descr))
               = dict_set (transactions s) (uuid4 dr) t
            \<and> transaction_type t = DEPOSIT \<and> status t = COMPLETED
            \<and> tx_account_id t = aid \<and> amount t = amt)"
    using d completed_fields [of dr aid DEPOSIT amt descr None] by blast
  have g: "\<forall>k b. get_account_by_number s n = Some (k, b) \<longrightarrow> is_active b \<and> account_number b = n"
    by (auto simp: get_account_by_number_def dest: find_SomeD)
  have rest: "fst (withdraw lib dr s aid amt descr)
          \<and> get_account_by_id (snd (withdraw lib dr s aid amt descr)) aid
              = Some (a\<lparr>balance := balance a - amt\<rparr>)
          \<and> (\<exists>t. transactions (snd (withdraw lib dr s aid amt descr))
                    = dict_set (transactions s) (uuid4 dr) t
                 \<and> transaction_type t = WITHDRAWAL \<and> status t = COMPLETED
                 \<and> tx_account_id t = aid \<and> amount t = amt)
          \<and> (fst (transfer lib dr dr' s aid n amt descr) \<longleftrightarrow> (\<exists>kv\<in>set (accounts s). ?P kv))
          \<and> (get_account_by_number s n = None
               \<longrightarrow> snd (transfer lib dr dr' s aid n amt descr) = s)
          \<and> (\<forall>kb b. get_account_by_number s n = Some (kb, b) \<longrightarrow>
                get_account_by_id (snd (transfer lib dr dr' s aid n amt descr)) aid
                  = Some (a\<lparr>balance := balance a - amt\<rparr>)
              \<and> get_account_by_id (snd (transfer lib dr dr' s aid n amt descr)) kb
                  = Some (b\<lparr>balance := balance b + amt\<rparr>)
              \<and> (\<exists>t d. transactions (snd (transfer lib dr dr' s aid n amt descr))
                        = dict_set (dict_set (transactions s) (uuid4 dr) t) (uuid4 dr') d
                     \<and> transaction_type t = TRANSFER \<and> status t = COMPLETED
                     \<and> tx_account_id t = aid \<and> amount t = amt
                     \<and> target_account_id t = Some (account_id b)
                     \<and> transaction_type d = DEPOSIT \<and> status d = COMPLETED
                     \<and> tx_account_id d = account_id b \<and> amount d = amt
                     \<and> target_account_id d = Some (account_id a)))"
    if within: "amt \<le> balance a"
  proof -
    from within have enough: "\<not> balance a < amt" by (rule float_le_not_less)
    note w = withdraw_accepted [OF src nonzero enough, of lib dr descr]
    have wd: "fst (withdraw lib dr s aid amt descr)
          \<and> get_account_by_id (snd (withdraw lib dr s aid amt descr)) aid
              = Some (a\<lparr>balance := balance a - amt\<rparr>)
          \<and> (\<exists>t. transactions (snd (withdraw lib dr s aid amt descr))
                    = dict_set (transactions s) (uuid4 dr) t
                 \<and> transaction_type t = WITHDRAWAL \<and> status t = COMPLETED
                 \<and> tx_account_id t = aid \<and> amount t = amt)"
      using w completed_fields [of dr aid WITHDRAWAL amt descr None] by blast
    have none: "snd (transfer lib dr dr' s aid n amt descr) = s
        \<and> \<not> fst (transfer lib dr dr' s aid n amt descr)"
      if "get_account_by_number s n = None"
      using that src by (simp add: transfer_def)
    have some: "fst (transfer lib dr dr' s aid n amt descr)
        \<and> get_account_by_id (snd (transfer lib dr dr' s aid n amt descr)) aid
            = Some (a\<lparr>balance := balance a - amt\<rparr>)
        \<and> get_account_by_id (snd (transfer lib dr dr' s aid n amt descr)) kb
            = Some (b\<lparr>balance := balance b + amt\<rparr>)
        \<and> (\<exists>t d. transactions (snd (transfer lib dr dr' s aid n amt descr))
                  = dict_set (dict_set (transactions s) (uuid4 dr) t) (uuid4 dr') d
               \<and> transaction_type t = TRANSFER \<and> status t = COMPLETED
               \<and> tx_account_id t = aid \<and> amount t = amt
               \<and> target_account_id t = Some (account_id b)
               \<and> transaction_type d = DEPOSIT \<and> status d = COMPLETED
               \<and> tx_account_id d = account_id b \<and> amount d = amt
               \<and> target_account_id d = Some (account_id a))"
      if dst: "get_account_by_number s n = Some (kb, b)" for kb b
    proof -
      from dst keys have mb: "map_of (accounts s) kb = Some b"
        by (simp add: get_account_by_number_def find_map_of)
      from dst g have "is_active b" by blast
      with ma mb inactive have neq: "aid \<noteq> kb" by auto
      note t = transfer_accepted [OF src dst nonzero enough, of lib dr dr' descr]
      have accs: "get_account_by_id (snd (transfer lib dr dr' s aid n amt descr)) aid
            = Some (a\<lparr>balance := balance a - amt\<rparr>)"
        "get_account_by_id (snd (transfer lib dr dr' s aid n amt descr)) kb
            = Some (b\<lparr>balance := balance b + amt\<rparr>)"
        using ma mb neq
        by (simp_all add: t get_account_by_id_def dict_get_def map_of_dict_modify)
      have txs: "\<exists>t d. transactions (snd (transfer lib dr dr' s aid n amt descr))
                  = dict_set (dict_set (transactions s) (uuid4 dr) t) (uuid4 dr') d
               \<and> transaction_type t = TRANSFER \<and> status t = COMPLETED
               \<and> tx_account_id t = aid \<and> amount t = amt
               \<and> target_account_id t = Some (account_id b)
               \<and> transaction_type d = DEPOSIT \<and> status d = COMPLETED
               \<and> tx_account_id d = account_id b \<and> amount d = amt
               \<and> target_account_id d = Some (account_id a)"
        apply (rule exI [of _ "complete_transaction
                    (create_transaction dr aid TRANSFER amt descr (Some (account_id b)))"])
        apply (rule exI [of _ "complete_transaction
                 (create_transaction dr' (account_id b) DEPOSIT amt
                    (''Transfer from '' @ account_number a) (Some (account_id a)))"])
        apply (simp add: t completed_fields)
        done
      from accs txs show ?thesis by (simp add: t)
    qed
    have iff: "fst (transfer lib dr dr' s aid n amt descr) \<longleftrightarrow> (\<exists>kv\<in>set (accounts s). ?P kv)"
    proof (cases "get_account_by_number s n")
      case None
      then have "\<not> (\<exists>kv\<in>set (accounts s). ?P kv)"
        using find_found_iff [of ?P "accounts s"] by (simp add: get_account_by_number_def)
      with none [OF None] show ?thesis by simp
    next
      case (Some kb)
      then have "\<exists>kv\<in>set (accounts s). ?P kv"
        using find_found_iff [of ?P "accounts s"] by (simp add: get_account_by_number_def)
      moreover obtain k b where "kb = (k, b)" by (cases kb)
      ultimately show ?thesis using some [of k b] Some by simp
    qed
    from wd iff none some show ?thesis by blast
  qed
  from dep rest g show ?thesis by blast
qed

theorem inactive_source_accepted_witness:
  "distinct (map fst (accounts
      (bank_of [(''acc-a'', account_A\<lparr>is_active := False\<rparr>), (''acc-b'', account_B)] [])))
   \<and> get_account_by_id
       (bank_of [(''acc-a'', account_A\<lparr>is_active := False\<rparr>), (''acc-b'', account_B)] []) ''acc-a''
       = Some (account_A\<lparr>is_active := False\<rparr>)
   \<and> \<not> is_active (account_A\<lparr>is_active := False\<rparr>) \<and> 0 < Finite 50
   \<and> Finite 50 \<le> balance (account_A\<lparr>is_active := False\<rparr>)
   \<and> get_account_by_number
       (bank_of [(''acc-a'', account_A\<lparr>is_active := False\<rparr>), (''acc-b'', account_B)] [])
       ''1000000002'' = Some (''acc-b'', account_B)
   \<and> fst (deposit stub_lib draw_1
        (bank_of [(''acc-a'', account_A\<lparr>is_active := False\<rparr>), (''acc-b'', account_B)] [])
        ''acc-a'' (Finite 50) [])
   \<and> get_account_by_id (snd (deposit stub_lib draw_1
        (bank_of [(''acc-a'', account_A\<lparr>is_active := False\<rparr>), (''acc-b'', account_B)] [])
        ''acc-a'' (Finite 50) [])) ''acc-a''
       = Some (account_A\<lparr>is_active := False, balance := Finite 150\<rparr>)
   \<and> fst (withdraw stub_lib draw_1
        (bank_of [(''acc-a'', account_A\<lparr>is_active := False\<rparr>), (''acc-b'', account_B)] [])
        ''acc-a'' (Finite 50) [])
   \<and> get_account_by_id (snd (withdraw stub_lib draw_1
        (bank_of [(''acc-a'', account_A\<lparr>is_active := False\<rparr>), (''acc-b'', account_B)] [])
        ''acc-a'' (Finite 50) [])) ''acc-a''
       = Some (account_A\<lparr>is_active := False, balance := Finite 50\<rparr>)
   \<and> fst (transfer stub_lib draw_1 draw_2
        (bank_of [(''acc-a'', account_A\<lparr>is_active := False\<rparr>), (''acc-b'', account_B)] [])
        ''acc-a'' ''1000000002'' (Finite 50) [])
   \<and> get_account_by_id (snd (transfer stub_lib draw_1 draw_2
        (bank_of [(''acc-a'', account_A\<lparr>is_active := False\<rparr>), (''acc-b'', account_B)] [])
        ''acc-a'' ''1000000002'' (Finite 50) [])) ''acc-a''
       = Some (account_A\<lparr>is_active := False, balance := Finite 50\<rparr>)
   \<and> get_account_by_id (snd (transfer stub_lib draw_1 draw_2
        (bank_of [(''acc-a'', account_A\<lparr>is_active := False\<rparr>), (''acc-b'', account_B)] [])
        ''acc-a'' ''1000000002'' (Finite 50) [])) ''acc-b''
       = Some (account_B\<lparr>balance := Finite 50\<rparr>)"
proof -
  let ?a = "account_A\<lparr>is_active := False\<rparr>"
  let ?s = "bank_of [(''acc-a'', ?a), (''acc-b'', account_B)] []"
  have h0: "distinct (map fst (accounts ?s))" by (simp add: bank_of_def)
  have h1: "get_account_by_id ?s ''acc-a'' = Some ?a"
    by (simp add: get_account_by_id_def dict_get_def bank_of_def)
  have h2: "\<not> is_active ?a" by simp
  have h3: "0 < Finite 50" by (simp add: float_ops)
  have h4: "Finite 50 \<le> balance ?a" by (simp add: account_A_def float_ops)
  have h5: "get_account_by_number ?s ''1000000002'' = Some (''acc-b'', account_B)"
    by (simp add: get_account_by_number_def example_defs)
  have up: "balance ?a + Finite 50 = Finite 150" "balance ?a - Finite 50 = Finite 50"
    "balance account_B + Finite 50 = Finite 50"
    by (simp_all add: example_defs float_ops float_eval)
  note inst = inactive_source_accepted [OF h0 h1 h2 h3, where lib = stub_lib and dr = draw_1
      and dr' = draw_2 and n = "''1000000002''" and descr = "[]"]
  note d1 = inst [THEN conjunct1]
  note d2 = inst [THEN conjunct2, THEN conjunct1]
  note rest = inst [THEN conjunct2, THEN conjunct2, THEN conjunct2, THEN conjunct1, THEN mp, OF h4]
  note w1 = rest [THEN conjunct1]
  note w2 = rest [THEN conjunct2, THEN conjunct1]
  note t1 = rest [THEN conjunct2, THEN conjunct2, THEN conjunct2, THEN conjunct1]
  note t3 = rest [THEN conjunct2, THEN conjunct2, THEN conjunct2, THEN conjunct2, THEN conjunct2,
      rule_format, OF h5]
  have t1': "fst (transfer stub_lib draw_1 draw_2 ?s ''acc-a'' ''1000000002'' (Finite 50) [])"
    unfolding t1 by (simp add: example_defs)
  have d2': "get_account_by_id (snd (deposit stub_lib draw_1 ?s ''acc-a'' (Finite 50) [])) ''acc-a''
      = Some (?a\<lparr>balance := Finite 150\<rparr>)"
    using d2 by (simp only: up)
  have w2': "get_account_by_id (snd (withdraw stub_lib draw_1 ?s ''acc-a'' (Finite 50) [])) ''acc-a''
      = Some (?a\<lparr>balance := Finite 50\<rparr>)"
    using w2 by (simp only: up)
  have t3a: "get_account_by_id (snd (transfer stub_lib draw_1 draw_2 ?s ''acc-a'' ''1000000002''
      (Finite 50) [])) ''acc-a'' = Some (?a\<lparr>balance := Finite 50\<rparr>)"
    using t3 [THEN conjunct1] by (simp only: up)
  have t3b: "get_account_by_id (snd (transfer stub_lib draw_1 draw_2 ?s ''acc-a'' ''1000000002''
      (Finite 50) [])) ''acc-b'' = Some (account_B\<lparr>balance := Finite 50\<rparr>)"
    using t3 [THEN conjunct2, THEN conjunct1] by (simp only: up)
  from h0 h1 h2 h3 h4 h5 d1 d2' w1 w2' t1' t3a t3b show ?thesis
    by (intro conjI)
qed

section \<open>Registration\<close>

text \<open>
  Claim C9. \<open>register_user\<close> fails exactly when some stored user, active or not, has a
  username equal to the requested one, character for character. When it fails the store
  is unchanged; otherwise it stores, under a new id, a new user with that username.
\<close>

lemma username_taken_iff: "username_taken us name \<longleftrightarrow> (\<exists>u\<in>set us. username u = name)"
  by (induction us) auto

theorem register_user_unique_username:
  "(fst (register_user lib dr am name pw mail ph rl) = False
      \<longleftrightarrow> (\<exists>u\<in>set (dict_values (am_users am)). username u = name))
   \<and> (\<not> fst (register_user lib dr am name pw mail ph rl)
      \<longrightarrow> snd (register_user lib dr am name pw mail ph rl) = am)
   \<and> (fst (register_user lib dr am name pw mail ph rl)
      \<longrightarrow> dict_get (am_users (snd (register_user lib dr am name pw mail ph rl))) (uuid4 dr)
            = Some (create_user lib dr name pw mail ph rl)
          \<and> username (create_user lib dr name pw mail ph rl) = name)"
  by (simp add: register_user_def username_taken_iff Let_def dict_get_def map_of_dict_set
      create_user_def User_init_def)

theorem register_user_unique_username_witness:
  "\<not> usr_is_active user_admin
   \<and> \<not> fst (register_user stub_lib draw_1
        \<lparr>am_users = [(''usr-1'', user_admin)], users_file = Missing\<rparr>
        ''admin'' ''secret'' ''a@b.c'' ''555'' ''customer'')
   \<and> snd (register_user stub_lib draw_1
        \<lparr>am_users = [(''usr-1'', user_admin)], users_file = Missing\<rparr>
        ''admin'' ''secret'' ''a@b.c'' ''555'' ''customer'')
       = \<lparr>am_users = [(''usr-1'', user_admin)], users_file = Missing\<rparr>
   \<and> fst (register_user stub_lib draw_1
        \<lparr>am_users = [(''usr-1'', user_admin)], users_file = Missing\<rparr>
        ''Admin'' ''secret'' ''a@b.c'' ''555'' ''customer'')
   \<and> map_option username (dict_get (am_users (snd (register_user stub_lib draw_1
        \<lparr>am_users = [(''usr-1'', user_admin)], users_file = Missing\<rparr>
        ''Admin'' ''secret'' ''a@b.c'' ''555'' ''customer''))) (uuid4 draw_1)) = Some ''Admin''"
proof -
  let ?am = "\<lparr>am_users = [(''usr-1'', user_admin)], users_file = Missing\<rparr>"
  have taken: "\<exists>u\<in>set (dict_values (am_users ?am)). username u = ''admin''"
    by (simp add: dict_values_def user_admin_def)
  have free: "\<not> (\<exists>u\<in>set (dict_values (am_users ?am)). username u = ''Admin'')"
    by (simp add: dict_values_def user_admin_def)
  have inactive: "\<not> usr_is_active user_admin"
    by (simp add: user_admin_def)
  from register_user_unique_username
         [of stub_lib draw_1 ?am "''admin''" "''secret''" "''a@b.c''" "''555''" "''customer''"]
       register_user_unique_username
         [of stub_lib draw_1 ?am "''Admin''" "''secret''" "''a@b.c''" "''555''" "''customer''"]
       taken free inactive
  show ?thesis by simp
qed

section \<open>The transaction summary\<close>









section \<open>Saving and loading\<close>

lemma type_value_roundtrip: "TransactionType_of_value (JStr (TransactionType_value ty)) = Inr ty"
  by (cases ty) (simp_all add: TransactionType_of_value_def TransactionType_value_def)

lemma status_value_roundtrip:
  "TransactionStatus_of_value (JStr (TransactionStatus_value st)) = Inr st"
  by (cases st) (simp_all add: TransactionStatus_of_value_def TransactionStatus_value_def)

lemmas reader_defs =
  subscript_def json_get_def truthy_def read_datetime_def py_float_def then_float_def
  err_def val_def as_str_def as_bool_def as_num_def as_opt_str_def outcome_of_def
  then_type_def then_status_def

lemma Account_roundtrip:
  assumes "codec_ok lib"
  shows "Account_from_dict lib dr (Account_to_dict lib a) = Returned a"
proof -
  from assms have c: "\<And>t. fromisoformat lib (isoformat lib t) = Inr t" "\<And>t. isoformat lib t \<noteq> []"
    by (simp_all add: codec_ok_def)
  have r: "Account_from_dict_raises lib (Account_to_dict lib a) = None"
    by (simp add: Account_from_dict_raises_def Account_to_dict_def reader_defs c)
  have v: "Account_from_dict_value lib dr (Account_to_dict lib a) = Some a"
    by (cases a) (simp add: Account_from_dict_value_def Account_to_dict_def reader_defs c
        Account_init_def)
  show ?thesis by (simp add: Account_from_dict_def r v outcome_of_def)
qed

lemma Transaction_roundtrip:
  assumes "codec_ok lib"
  shows "Transaction_from_dict lib dr (Transaction_to_dict lib t) = Returned t"
proof -
  from assms have c: "\<And>t. fromisoformat lib (isoformat lib t) = Inr t" "\<And>t. isoformat lib t \<noteq> []"
    by (simp_all add: codec_ok_def)
  have r: "Transaction_from_dict_raises lib (Transaction_to_dict lib t) = None"
    by (simp add: Transaction_from_dict_raises_def Transaction_to_dict_def reader_defs c
        type_value_roundtrip status_value_roundtrip)
  have v: "Transaction_from_dict_value lib dr (Transaction_to_dict lib t) = Some t"
    by (cases t) (simp add: Transaction_from_dict_value_def Transaction_to_dict_def reader_defs c
        Transaction_init_def type_value_roundtrip status_value_roundtrip split: option.split)
  show ?thesis by (simp add: Transaction_from_dict_def r v outcome_of_def)
qed

lemma User_roundtrip:
  assumes "codec_ok lib"
  shows "User_from_dict lib dr (User_to_dict lib u) = Returned u"
proof -
  from assms have c: "\<And>t. fromisoformat lib (isoformat lib t) = Inr t" "\<And>t. isoformat lib t \<noteq> []"
    by (simp_all add: codec_ok_def)
  have r: "User_from_dict_raises lib (User_to_dict lib u) = None"
    by (simp add: User_from_dict_raises_def User_to_dict_def reader_defs c split: option.split)
  have v: "User_from_dict_value lib dr (User_to_dict lib u) = Some u"
    by (cases u) (simp add: User_from_dict_value_def User_to_dict_def reader_defs c
        User_init_def split: option.split)
  show ?thesis by (simp add: User_from_dict_def r v outcome_of_def)
qed

lemma load_items_images:
  assumes "\<And>k v. f k (g v) = Returned v"
  shows "distinct (map fst (acc @ d)) \<Longrightarrow>
    load_items f (map (\<lambda>kv. (fst kv, g (snd kv))) d) (Some acc) = Returned (acc @ d)"
proof (induction d arbitrary: acc)
  case Nil
  then show ?case by simp
next
  case (Cons kv d)
  from Cons.prems have fresh: "fst kv \<notin> fst ` set acc" by auto
  from Cons.prems have "distinct (map fst ((acc @ [kv]) @ d))" by auto
  from Cons.IH [OF this] show ?case
    by (simp add: assms dict_set_fresh [OF fresh])
qed

lemma load_save_collection:
  assumes "\<And>k v. f k (g v) = Returned v" and "distinct (map fst d)"
  shows "load_collection f (save_collection g d) = Returned d"
  using load_items_images [of f g "[]" d, OF assms(1)] assms(2)
  by (simp add: load_collection_def save_collection_def json_load_def)

lemma codec_ok_stub_lib: "codec_ok stub_lib"
proof -
  have "stub_fromisoformat (stub_isoformat t) = Inr t \<and> stub_isoformat t \<noteq> []" for t
    by (cases t)
      (simp_all add: stub_fromisoformat_def stub_isoformat_def sign_char_def signed_def)
  then show ?thesis by (simp add: codec_ok_def stub_lib_def)
qed

text \<open>
  Claim C7. For each of the three collections, loading what was saved returns the
  collection that was saved, every field included: the users, the accounts and the
  transactions, for any dict of records (its keys are distinct, as those of a dict are),
  given that \<open>fromisoformat\<close> reads back what \<open>isoformat\<close> writes.
\<close>

theorem load_save_roundtrip:
  assumes "codec_ok lib"
  shows "(distinct (map fst us) \<longrightarrow> load_users lib draws (save_users lib us) = Returned us)
     \<and> (distinct (map fst accs) \<longrightarrow> load_accounts lib draws (save_accounts lib accs) = Returned accs)
     \<and> (distinct (map fst txs) \<longrightarrow>
          load_transactions lib draws (save_transactions lib txs) = Returned txs)"
  by (simp add: load_users_def save_users_def load_accounts_def save_accounts_def
      load_transactions_def save_transactions_def load_save_collection
      User_roundtrip [OF assms] Account_roundtrip [OF assms] Transaction_roundtrip [OF assms])

theorem load_save_roundtrip_witness:
  "codec_ok stub_lib
   \<and> distinct (map fst [(''usr-1'', user_admin)])
   \<and> load_users stub_lib (\<lambda>k. draw_1) (save_users stub_lib [(''usr-1'', user_admin)])
       = Returned [(''usr-1'', user_admin)]
   \<and> distinct (map fst [(''acc-a'', account_A), (''acc-b'', account_B)])
   \<and> load_accounts stub_lib (\<lambda>k. draw_1)
         (save_accounts stub_lib [(''acc-a'', account_A), (''acc-b'', account_B)])
       = Returned [(''acc-a'', account_A), (''acc-b'', account_B)]
   \<and> distinct (map fst [(''tx-d'', tx_deposit), (''tx-f'', tx_failed)])
   \<and> load_transactions stub_lib (\<lambda>k. draw_1)
         (save_transactions stub_lib [(''tx-d'', tx_deposit), (''tx-f'', tx_failed)])
       = Returned [(''tx-d'', tx_deposit), (''tx-f'', tx_failed)]"
  using load_save_roundtrip [OF codec_ok_stub_lib, of "[(''usr-1'', user_admin)]" "\<lambda>k. draw_1"
      "[(''acc-a'', account_A), (''acc-b'', account_B)]"
      "[(''tx-d'', tx_deposit), (''tx-f'', tx_failed)]"] codec_ok_stub_lib
  by simp

lemma load_absent_or_undecodable:
  "load_collection f Missing = Returned [] \<and> load_collection f Undecodable = Returned []"
  by (simp add: load_collection_def json_load_def caught_def)

text \<open>
  Claim C8. A file that is absent, or that holds content which does not decode into
  records, loads as the empty dict without an exception reaching the caller. The loaders
  catch JSONDecodeError, KeyError and ValueError only: a file that holds a JSON array
  makes each of the three raise AttributeError, and a record that is a number makes
  \<open>from_dict\<close> raise TypeError, which leaves \<open>load_accounts\<close> as well.
\<close>

theorem load_raises_on_non_object:
  "load_users lib draws (Decoded (JArr [])) = Raised AttributeError
   \<and> load_accounts lib draws (Decoded (JArr [])) = Raised AttributeError
   \<and> load_transactions lib draws (Decoded (JArr [])) = Raised AttributeError
   \<and> load_accounts lib draws (Decoded (JObj [(''a1'', JInt 5)])) = Raised TypeError"
  by (simp add: load_users_def load_accounts_def load_transactions_def load_collection_def
      json_load_def caught_def Account_from_dict_def Account_from_dict_raises_def reader_defs)

section \<open>Transfers\<close>

lemmas engine_defs = transfer_def transfer_to_def get_account_by_id_def get_account_by_number_def
  dict_get_def create_transaction_def Transaction_init_def complete_transaction_def
  fail_transaction_def get_system_stats_def py_sum_def dict_values_def Let_def

text \<open>
  Claim C3 as stated, for every two distinct accounts, fails in two ways. With a
  deactivated destination the transfer is refused although the amount is within the
  source's balance. And the balances are floats: a transfer of 1 from an account that
  holds 2 to an account that holds \<open>2^53\<close>, both active, succeeds and leaves the
  destination at \<open>2^53\<close>, so that the sum of the balances of the active accounts falls
  from \<open>2^53 + 2\<close> to \<open>2^53\<close>.
\<close>

theorem transfer_claim_counterexample:
  "get_account_by_id
     (bank_of [(''acc-a'', account_A), (''acc-b'', account_B\<lparr>is_active := False\<rparr>)] []) ''acc-a''
     = Some account_A
   \<and> 0 < Finite 50 \<and> Finite 50 \<le> balance account_A
   \<and> \<not> fst (transfer stub_lib draw_1 draw_2
        (bank_of [(''acc-a'', account_A), (''acc-b'', account_B\<lparr>is_active := False\<rparr>)] [])
        ''acc-a'' (account_number account_B) (Finite 50) [])
   \<and> 0 < Finite 1 \<and> Finite 1 \<le> balance (account_A\<lparr>balance := Finite 2\<rparr>)
   \<and> fst (transfer stub_lib draw_1 draw_2
        (bank_of [(''acc-a'', account_A\<lparr>balance := Finite 2\<rparr>),
                  (''acc-b'', account_B\<lparr>balance := Finite 9007199254740992\<rparr>)] [])
        ''acc-a'' (account_number account_B) (Finite 1) [])
   \<and> map (\<lambda>kv. (fst kv, balance (snd kv))) (accounts (snd (transfer stub_lib draw_1 draw_2
        (bank_of [(''acc-a'', account_A\<lparr>balance := Finite 2\<rparr>),
                  (''acc-b'', account_B\<lparr>balance := Finite 9007199254740992\<rparr>)] [])
        ''acc-a'' (account_number account_B) (Finite 1) [])))
       = [(''acc-a'', Finite 1), (''acc-b'', Finite 9007199254740992)]
   \<and> total_balance (get_system_stats
        (bank_of [(''acc-a'', account_A\<lparr>balance := Finite 2\<rparr>),
                  (''acc-b'', account_B\<lparr>balance := Finite 9007199254740992\<rparr>)] []))
       = Finite 9007199254740994
   \<and> total_balance (get_system_stats (snd (transfer stub_lib draw_1 draw_2
        (bank_of [(''acc-a'', account_A\<lparr>balance := Finite 2\<rparr>),
                  (''acc-b'', account_B\<lparr>balance := Finite 9007199254740992\<rparr>)] [])
        ''acc-a'' (account_number account_B) (Finite 1) [])))
       = Finite 9007199254740992"
  by (simp add: engine_defs example_defs float_ops float_eval)

lemma dict_set_fresh_twice:
  "k \<notin> fst ` set d \<Longrightarrow> k' \<notin> fst ` set d \<Longrightarrow> k \<noteq> k'
     \<Longrightarrow> dict_set (dict_set d k v) k' v' = d @ [(k, v), (k', v')]"
  by (simp add: dict_set_fresh)

text \<open>
  Claim C3, amended. Let A, stored under \<open>ka\<close>, and B, stored under another key \<open>kb\<close>, be
  such that B is the account that its number resolves to (the first active account with
  that number), and let \<open>0 < amt \<le> balance A\<close>. Then \<open>transfer\<close> succeeds, A's balance
  becomes the float difference \<open>balance A - amt\<close>, B's the float sum \<open>balance B + amt\<close>, no
  other account changes, and exactly two records are appended: a completed transfer on A
  that names B's id, and a completed deposit on B that names A's id. The two identifiers
  drawn are new to the store and differ. Nothing is said of the sum of all balances.
\<close>

theorem transfer_between_accounts:
  assumes keys: "distinct (map fst (accounts s))"
    and src: "get_account_by_id s ka = Some a"
    and dst: "get_account_by_number s (account_number b) = Some (kb, b)"
    and neq: "ka \<noteq> kb"
    and amt: "0 < amt" "amt \<le> balance a"
    and fresh: "uuid4 dr \<notin> fst ` set (transactions s)" "uuid4 dr' \<notin> fst ` set (transactions s)"
      "uuid4 dr \<noteq> uuid4 dr'"
  shows "\<exists>s' t d.
       transfer lib dr dr' s ka (account_number b) amt descr = (True, s')
     \<and> dict_get (accounts s') ka = Some (a\<lparr>balance := balance a - amt\<rparr>)
     \<and> dict_get (accounts s') kb = Some (b\<lparr>balance := balance b + amt\<rparr>)
     \<and> (\<forall>k. k \<noteq> ka \<and> k \<noteq> kb \<longrightarrow> dict_get (accounts s') k = dict_get (accounts s) k)
     \<and> transactions s' = transactions s @ [(uuid4 dr, t), (uuid4 dr', d)]
     \<and> transaction_type t = TRANSFER \<and> tx_account_id t = ka \<and> amount t = amt
     \<and> target_account_id t = Some (account_id b) \<and> status t = COMPLETED
     \<and> transaction_type d = DEPOSIT \<and> tx_account_id d = account_id b \<and> amount d = amt
     \<and> target_account_id d = Some (account_id a) \<and> status d = COMPLETED"
proof -
  let ?t = "complete_transaction
      (create_transaction dr ka TRANSFER amt descr (Some (account_id b)))"
  let ?d = "complete_transaction
      (create_transaction dr' (account_id b) DEPOSIT amt
         (''Transfer from '' @ account_number a) (Some (account_id a)))"
  from src have ma: "map_of (accounts s) ka = Some a"
    by (simp add: get_account_by_id_def dict_get_def)
  from dst keys have mb: "map_of (accounts s) kb = Some b"
    by (simp add: get_account_by_number_def find_map_of)
  from amt have guards: "\<not> amt \<le> 0" "\<not> balance a < amt"
    by (simp_all add: float_less_not_le float_le_not_less)
  note run = transfer_accepted [OF src dst guards, of lib dr dr' descr]
  note txs = dict_set_fresh_twice [OF fresh]
  show ?thesis
    apply (rule exI [of _ "snd (transfer lib dr dr' s ka (account_number b) amt descr)"])
    apply (rule exI [of _ ?t], rule exI [of _ ?d])
    apply (simp only: completed_fields)
    apply (simp add: run txs dict_get_def map_of_dict_modify ma mb neq)
    using neq apply auto
    done
qed

theorem transfer_between_accounts_witness:
  "distinct (map fst (accounts
      (bank_of [(''acc-a'', account_A), (''acc-b'', account_B)] [(''tx-d'', tx_deposit)])))
   \<and> get_account_by_id
       (bank_of [(''acc-a'', account_A), (''acc-b'', account_B)] [(''tx-d'', tx_deposit)]) ''acc-a''
       = Some account_A
   \<and> get_account_by_number
       (bank_of [(''acc-a'', account_A), (''acc-b'', account_B)] [(''tx-d'', tx_deposit)])
       (account_number account_B) = Some (''acc-b'', account_B)
   \<and> ''acc-a'' \<noteq> ''acc-b'' \<and> 0 < Finite 50 \<and> Finite 50 \<le> balance account_A
   \<and> uuid4 draw_1 \<noteq> uuid4 draw_2
   \<and> (\<exists>s' t d.
        transfer stub_lib draw_1 draw_2
          (bank_of [(''acc-a'', account_A), (''acc-b'', account_B)] [(''tx-d'', tx_deposit)])
          ''acc-a'' (account_number account_B) (Finite 50) [] = (True, s')
      \<and> dict_get (accounts s') ''acc-a'' = Some (account_A\<lparr>balance := Finite 50\<rparr>)
      \<and> dict_get (accounts s') ''acc-b'' = Some (account_B\<lparr>balance := Finite 50\<rparr>)
      \<and> transactions s' = [(''tx-d'', tx_deposit), (''tx-1'', t), (''tx-2'', d)]
      \<and> transaction_type t = TRANSFER \<and> target_account_id t = Some ''acc-b''
      \<and> status t = COMPLETED
      \<and> transaction_type d = DEPOSIT \<and> target_account_id d = Some ''acc-a''
      \<and> status d = COMPLETED)"
proof -
  let ?s = "bank_of [(''acc-a'', account_A), (''acc-b'', account_B)] [(''tx-d'', tx_deposit)]"
  have h1: "distinct (map fst (accounts ?s))" by (simp add: bank_of_def)
  have h2: "get_account_by_id ?s ''acc-a'' = Some account_A"
    by (simp add: get_account_by_id_def dict_get_def bank_of_def)
  have h3: "get_account_by_number ?s (account_number account_B) = Some (''acc-b'', account_B)"
    by (simp add: get_account_by_number_def example_defs)
  have h4: "''acc-a'' \<noteq> ''acc-b''" by simp
  have h6: "0 < Finite 50" by (simp add: float_ops)
  have h7: "Finite 50 \<le> balance account_A" by (simp add: account_A_def float_ops)
  have h8: "uuid4 draw_1 \<notin> fst ` set (transactions ?s)" by (simp add: example_defs)
  have h9: "uuid4 draw_2 \<notin> fst ` set (transactions ?s)" by (simp add: example_defs)
  have h10: "uuid4 draw_1 \<noteq> uuid4 draw_2" by (simp add: example_defs)
  have up: "balance account_A - Finite 50 = Finite 50" "balance account_B + Finite 50 = Finite 50"
    by (simp_all add: example_defs float_ops float_eval)
  have ids: "uuid4 draw_1 = ''tx-1''" "uuid4 draw_2 = ''tx-2''"
    "account_id account_A = ''acc-a''" "account_id account_B = ''acc-b''"
    "transactions ?s = [(''tx-d'', tx_deposit)]"
    by (simp_all add: example_defs)
  note inst = transfer_between_accounts [OF h1 h2 h3 h4 h6 h7 h8 h9 h10,
      where lib = stub_lib and descr = "[]"]
  have run: "\<exists>s' t d.
        transfer stub_lib draw_1 draw_2 ?s ''acc-a'' (account_number account_B) (Finite 50) []
          = (True, s')
      \<and> dict_get (accounts s') ''acc-a'' = Some (account_A\<lparr>balance := Finite 50\<rparr>)
      \<and> dict_get (accounts s') ''acc-b'' = Some (account_B\<lparr>balance := Finite 50\<rparr>)
      \<and> transactions s' = [(''tx-d'', tx_deposit), (''tx-1'', t), (''tx-2'', d)]
      \<and> transaction_type t = TRANSFER \<and> target_account_id t = Some ''acc-b''
      \<and> status t = COMPLETED
      \<and> transaction_type d = DEPOSIT \<and> target_account_id d = Some ''acc-a''
      \<and> status d = COMPLETED"
    apply (insert inst)
    apply (elim exE conjE)
    subgoal for s' t d
      apply (rule exI [of _ s'], rule exI [of _ t], rule exI [of _ d])
      apply (simp only: up ids)
      apply simp
      done
    done
  from h1 h2 h3 h4 h6 h7 h10 run show ?thesis
    by (intro conjI)
qed

section \<open>Transfers to the source account's own number\<close>

text \<open>
  Claim C2. A transfer whose destination number is the source account's own number is
  to fail and to leave the engine's state unchanged. \<open>transfer\<close> has no such check: the
  number resolves to the source account itself, the debit and the credit fall on the one
  object, the call returns \<open>True\<close> and two records are appended. With an amount above the
  balance the call returns \<open>False\<close>, and still appends a failed record.
\<close>

theorem transfer_to_own_number:
  "get_account_by_id (bank_of [(''acc-a'', account_A)] []) ''acc-a'' = Some account_A
   \<and> fst (transfer stub_lib draw_1 draw_2 (bank_of [(''acc-a'', account_A)] [])
          ''acc-a'' (account_number account_A) (Finite 50) [])
   \<and> accounts (snd (transfer stub_lib draw_1 draw_2 (bank_of [(''acc-a'', account_A)] [])
          ''acc-a'' (account_number account_A) (Finite 50) [])) = [(''acc-a'', account_A)]
   \<and> map (\<lambda>kv. (fst kv, transaction_type (snd kv), status (snd kv)))
        (transactions (snd (transfer stub_lib draw_1 draw_2 (bank_of [(''acc-a'', account_A)] [])
          ''acc-a'' (account_number account_A) (Finite 50) [])))
       = [(''tx-1'', TRANSFER, COMPLETED), (''tx-2'', DEPOSIT, COMPLETED)]
   \<and> fst (transfer stub_lib draw_1 draw_2 (bank_of [(''acc-a'', account_A)] [])
          ''acc-a'' (account_number account_A) (Finite 500) []) = False
   \<and> map (\<lambda>kv. (fst kv, transaction_type (snd kv), status (snd kv)))
        (transactions (snd (transfer stub_lib draw_1 draw_2 (bank_of [(''acc-a'', account_A)] [])
          ''acc-a'' (account_number account_A) (Finite 500) [])))
       = [(''tx-1'', TRANSFER, FAILED)]"
  by (simp add: engine_defs example_defs float_ops float_eval)

section \<open>Non-negative balances\<close>

lemma balances_nonneg_lookup:
  "balances_nonneg d \<Longrightarrow> map_of d k = Some a \<Longrightarrow> 0 \<le> balance a"
  by (induction d) (auto simp: balances_nonneg_def split: if_splits)

lemma balances_nonneg_modify:
  "balances_nonneg d \<Longrightarrow> (\<And>x. 0 \<le> balance x \<Longrightarrow> 0 \<le> balance (f x))
     \<Longrightarrow> balances_nonneg (dict_modify d k f)"
  by (induction d) (auto simp: balances_nonneg_def)

lemma balances_nonneg_modify_at:
  "balances_nonneg d \<Longrightarrow> map_of d k = Some a \<Longrightarrow> 0 \<le> balance (f a)
     \<Longrightarrow> balances_nonneg (dict_modify d k f)"
  by (induction d) (auto simp: balances_nonneg_def split: if_splits)

lemma balances_nonneg_set:
  "balances_nonneg d \<Longrightarrow> 0 \<le> balance v \<Longrightarrow> balances_nonneg (dict_set d k v)"
  by (induction d) (auto simp: balances_nonneg_def)

lemma deposit_keeps_nonneg:
  assumes "balances_nonneg (accounts s)" and "is_finite amt"
  shows "balances_nonneg (accounts (snd (deposit lib dr s aid amt descr)))"
proof (cases "get_account_by_id s aid")
  case None
  with assms show ?thesis by (simp add: deposit_def)
next
  case (Some a)
  then have "0 \<le> balance a"
    using assms by (simp add: get_account_by_id_def dict_get_def balances_nonneg_lookup)
  then have "\<not> amt \<le> 0 \<Longrightarrow> 0 \<le> balance a + amt"
    using assms(2) by (simp add: float_add_nonneg not_le_zero_pos)
  with Some assms show ?thesis
    by (simp add: deposit_def Account_deposit_def Let_def get_account_by_id_def dict_get_def
        balances_nonneg_modify_at)
qed

lemma withdraw_keeps_nonneg:
  assumes "balances_nonneg (accounts s)" and "is_finite amt"
  shows "balances_nonneg (accounts (snd (withdraw lib dr s aid amt descr)))"
proof (cases "get_account_by_id s aid")
  case None
  with assms show ?thesis by (simp add: withdraw_def)
next
  case (Some a)
  then have "0 \<le> balance a"
    using assms by (simp add: get_account_by_id_def dict_get_def balances_nonneg_lookup)
  then have "\<not> balance a < amt \<Longrightarrow> 0 \<le> balance a - amt"
    using assms(2) by (simp add: float_sub_nonneg)
  with Some assms show ?thesis
    by (simp add: withdraw_def Account_withdraw_def Let_def get_account_by_id_def dict_get_def
        balances_nonneg_modify_at)
qed

lemma transfer_to_keeps_nonneg:
  assumes "balances_nonneg accs" and "is_finite amt"
  shows "balances_nonneg (snd (transfer_to accs src dst amt))"
proof (cases "dict_get accs src")
  case None
  with assms show ?thesis by (simp add: transfer_to_def)
next
  case (Some a)
  show ?thesis
  proof (cases "amt \<le> 0 \<or> amt > balance a")
    case True
    with Some assms show ?thesis by (simp add: transfer_to_def)
  next
    case False
    from Some assms have "0 \<le> balance a"
      by (simp add: dict_get_def balances_nonneg_lookup)
    with False assms(2) have debit: "0 \<le> balance a - amt" and credit: "0 \<le> amt"
      by (simp_all add: float_sub_nonneg not_le_zero_pos)
    from Some assms debit have
      "balances_nonneg (dict_modify accs src (\<lambda>x. x\<lparr>balance := balance x - amt\<rparr>))"
      by (simp add: dict_get_def balances_nonneg_modify_at)
    then have "balances_nonneg
        (dict_modify (dict_modify accs src (\<lambda>x. x\<lparr>balance := balance x - amt\<rparr>)) dst
           (\<lambda>x. x\<lparr>balance := balance x + amt\<rparr>))"
      using credit by (simp add: balances_nonneg_modify float_add_nonneg)
    with Some False show ?thesis by (simp add: transfer_to_def Let_def)
  qed
qed

lemma transfer_keeps_nonneg:
  assumes "balances_nonneg (accounts s)" and "is_finite amt"
  shows "balances_nonneg (accounts (snd (transfer lib dr dr' s aid n amt descr)))"
  using assms transfer_to_keeps_nonneg [OF assms, of aid _ ]
  by (simp add: transfer_def Let_def split: option.split prod.split)

lemma create_account_keeps_nonneg:
  assumes "balances_nonneg (accounts s)" and "0 \<le> initial_balance"
  shows "balances_nonneg (accounts (snd (create_account lib dr dr' s uid ty initial_balance)))"
  using assms
  by (simp add: create_account_def Let_def Account_create_account_def Account_init_def
      balances_nonneg_set)

lemma apply_operation_keeps_nonneg:
  "balances_nonneg (accounts s) \<Longrightarrow> opens_in_credit op
     \<Longrightarrow> balances_nonneg (accounts (apply_operation lib s op))"
  by (cases op)
    (simp_all add: create_account_keeps_nonneg deposit_keeps_nonneg withdraw_keeps_nonneg
      transfer_keeps_nonneg)

lemma run_operations_keeps_nonneg:
  "balances_nonneg (accounts s) \<Longrightarrow> list_all opens_in_credit ops
     \<Longrightarrow> balances_nonneg (accounts (run_operations lib s ops))"
  unfolding run_operations_def
  by (induction ops arbitrary: s) (simp_all add: apply_operation_keeps_nonneg)

text \<open>
  Claim C1. Every balance is to stay non-negative under any sequence of operations.
  \<open>deposit\<close>, \<open>withdraw\<close> and \<open>transfer\<close> of a finite amount keep it so, and \<open>create_account\<close>
  does when the initial balance is not negative, hence so does every sequence of such
  operations; but \<open>create_account\<close> accepts a negative initial balance as it is and stores
  the account with it.
\<close>

theorem negative_initial_balance:
  "balances_nonneg (accounts (bank_of [(''acc-a'', account_A)] []))
   \<and> balance (fst (create_account stub_lib draw_3 draw_1 (bank_of [(''acc-a'', account_A)] [])
        ''u1'' ''savings'' (Finite (- 5)))) = Finite (- 5)
   \<and> map (\<lambda>kv. (fst kv, balance (snd kv)))
        (accounts (snd (create_account stub_lib draw_3 draw_1 (bank_of [(''acc-a'', account_A)] [])
        ''u1'' ''savings'' (Finite (- 5))))) = [(''acc-a'', Finite 100), (''acc-n'', Finite (- 5))]
   \<and> \<not> balances_nonneg (accounts (snd (create_account stub_lib draw_3 draw_1
        (bank_of [(''acc-a'', account_A)] []) ''u1'' ''savings'' (Finite (- 5)))))"
  by (simp add: create_account_def Account_create_account_def Account_init_def
      balances_nonneg_def example_defs Let_def float_ops)

end
